theory Spec2Isabelle
  imports Main "HOL-Library.Char_ord" "HOL-Library.List_Lexorder" "HOL-Library.Sublist"
begin

section \<open>JavaScript values and strings\<close>

text \<open>
  The front end (\<^verbatim>\<open>src/frontend/app.js\<close>) holds two scripts, one after the other: the
  first (lines 1 to 210) filters by search text and brand; the second (from line 210)
  adds the store filter, the scrape trigger and the status polling. Where the two differ,
  the definitions of the first carry the suffix \<open>_1\<close>.

  Both work on JSON rows received from the API. A field of a row is a JavaScript value;
  the model keeps the primitive values the scripts can meet in a row (numbers are the
  integral ones). Strings are lists of characters with the ASCII case mapping; the case
  mapping of code points outside ASCII is not modelled.
\<close>

datatype jsval = JUndefined | JNull | JBool bool | JNum int | JStr string

datatype js_error = TypeError

fun truthy :: "jsval \<Rightarrow> bool" where
  "truthy JUndefined = False"
| "truthy JNull = False"
| "truthy (JBool b) = b"
| "truthy (JNum n) = (n \<noteq> 0)"
| "truthy (JStr s) = (s \<noteq> [])"

text \<open>The operator \<^verbatim>\<open>a || b\<close>.\<close>

definition js_or :: "jsval \<Rightarrow> jsval \<Rightarrow> jsval" where
  "js_or a b = (if truthy a then a else b)"

fun digits :: "nat \<Rightarrow> string" where
  "digits n = (if n < 10 then [char_of (48 + n)] else digits (n div 10) @ [char_of (48 + n mod 10)])"

definition show_int :: "int \<Rightarrow> string" where
  "show_int i = (if i < 0 then CHR ''-'' # digits (nat (- i)) else digits (nat i))"

text \<open>String conversion, as a template literal \<^verbatim>\<open>${v}\<close> and \<^verbatim>\<open>"" + v\<close> perform it.\<close>

fun to_string :: "jsval \<Rightarrow> string" where
  "to_string JUndefined = ''undefined''"
| "to_string JNull = ''null''"
| "to_string (JBool b) = (if b then ''true'' else ''false'')"
| "to_string (JNum n) = show_int n"
| "to_string (JStr s) = s"

text \<open>
  Assigning to \<^verbatim>\<open>textContent\<close>: \<^verbatim>\<open>null\<close> and \<^verbatim>\<open>undefined\<close> give the empty
  text, every other value its string.
\<close>

fun text_content :: "jsval \<Rightarrow> string" where
  "text_content JUndefined = []"
| "text_content JNull = []"
| "text_content v = to_string v"

definition toUpperChar :: "char \<Rightarrow> char" where
  "toUpperChar c = (let n = of_char c :: nat in if 97 \<le> n \<and> n \<le> 122 then char_of (n - 32) else c)"

definition toLowerChar :: "char \<Rightarrow> char" where
  "toLowerChar c = (let n = of_char c :: nat in if 65 \<le> n \<and> n \<le> 90 then char_of (n + 32) else c)"

definition toUpperCase :: "string \<Rightarrow> string" where
  "toUpperCase s = map toUpperChar s"

definition toLowerCase :: "string \<Rightarrow> string" where
  "toLowerCase s = map toLowerChar s"

text \<open>\<^verbatim>\<open>s.includes(t)\<close>: \<open>t\<close> occurs in \<open>s\<close> as a contiguous run.\<close>

fun str_includes :: "string \<Rightarrow> string \<Rightarrow> bool" where
  "str_includes [] t = (t = [])"
| "str_includes (c # s) t = (prefix t (c # s) \<or> str_includes s t)"

text \<open>\<^verbatim>\<open>s.replace(/'/g, "\\'")\<close>: a backslash before every single quote.\<close>

fun escape_quotes :: "string \<Rightarrow> string" where
  "escape_quotes [] = []"
| "escape_quotes (c # s) =
     (if c = CHR 0x27 then CHR 0x5C # CHR 0x27 # escape_quotes s else c # escape_quotes s)"

text \<open>
  Method calls on a value that may not be a string. Reading a property of
  \<^verbatim>\<open>null\<close> or \<^verbatim>\<open>undefined\<close> throws a TypeError, and so does calling a string
  method that a number or a boolean does not have.
\<close>

fun js_toLowerCase :: "jsval \<Rightarrow> js_error + string" where
  "js_toLowerCase (JStr s) = Inr (toLowerCase s)"
| "js_toLowerCase v = Inl TypeError"

fun js_toUpperCase :: "jsval \<Rightarrow> js_error + string" where
  "js_toUpperCase (JStr s) = Inr (toUpperCase s)"
| "js_toUpperCase v = Inl TypeError"

fun js_includes :: "jsval \<Rightarrow> string \<Rightarrow> js_error + bool" where
  "js_includes (JStr s) t = Inr (str_includes s t)"
| "js_includes v t = Inl TypeError"

fun js_replace_quotes :: "jsval \<Rightarrow> js_error + string" where
  "js_replace_quotes (JStr s) = Inr (escape_quotes s)"
| "js_replace_quotes v = Inl TypeError"

fun js_toString :: "jsval \<Rightarrow> js_error + string" where
  "js_toString JUndefined = Inl TypeError"
| "js_toString JNull = Inl TypeError"
| "js_toString v = Inr (to_string v)"

text \<open>A \<^verbatim>\<open>Set\<close> keeps its members in insertion order, each once.\<close>

definition set_add :: "'a list \<Rightarrow> 'a \<Rightarrow> 'a list" where
  "set_add xs x = (if x \<in> set xs then xs else xs @ [x])"

text \<open>\<^verbatim>\<open>Array.prototype.filter\<close> with a callback that may throw.\<close>

fun js_filter :: "('a \<Rightarrow> js_error + bool) \<Rightarrow> 'a list \<Rightarrow> js_error + 'a list" where
  "js_filter p [] = Inr []"
| "js_filter p (x # xs) =
     (case p x of
        Inl e \<Rightarrow> Inl e
      | Inr b \<Rightarrow> (case js_filter p xs of
                   Inl e \<Rightarrow> Inl e
                 | Inr ys \<Rightarrow> Inr (if b then x # ys else ys)))"

section \<open>The page: rows, form controls and the grid\<close>

text \<open>
  A row of \<^verbatim>\<open>GET /api/gpus\<close>. An element of the received array is an object
  (\<open>Some\<close> of its fields) or \<^verbatim>\<open>null\<close> (\<open>None\<close>). The body itself is an array, or an
  object that is no array (an error report), or \<^verbatim>\<open>null\<close>.
\<close>

record gpu =
  product_id :: jsval
  brand :: jsval
  model_name :: jsval
  manufacturer :: jsval
  full_name :: jsval
  price_usd :: jsval
  stock_status :: jsval
  product_url :: jsval
  last_seen_image_url :: jsval
  store_name :: jsval
  scraped_at :: jsval

datatype json_body = BodyNull | BodyObject | BodyArray "gpu option list"

text \<open>
  A \<^verbatim>\<open><select>\<close> element: the values of its options in order and the selected index
  (\<open>None\<close> is index -1). Option values are kept as the strings the script writes into
  the markup; HTML escaping of the names is outside the model.
\<close>

record select_el =
  sel_options :: "string list"
  sel_index :: "nat option"

definition select_value :: "select_el \<Rightarrow> string" where
  "select_value s =
     (case sel_index s of
        None \<Rightarrow> []
      | Some i \<Rightarrow> if i < length (sel_options s) then sel_options s ! i else [])"

text \<open>Replacing the options through \<^verbatim>\<open>innerHTML\<close> selects the first of them.\<close>

definition set_options :: "string list \<Rightarrow> select_el \<Rightarrow> select_el" where
  "set_options opts s = s\<lparr>sel_options := opts, sel_index := (if opts = [] then None else Some 0)\<rparr>"

definition append_option :: "string \<Rightarrow> select_el \<Rightarrow> select_el" where
  "append_option v s =
     s\<lparr>sel_options := sel_options s @ [v],
       sel_index := (if sel_options s = [] then Some 0 else sel_index s)\<rparr>"

fun index_of :: "'a \<Rightarrow> 'a list \<Rightarrow> nat option" where
  "index_of v [] = None"
| "index_of v (x # xs) = (if x = v then Some 0 else map_option Suc (index_of v xs))"

text \<open>Assigning \<^verbatim>\<open>select.value\<close> selects the first option with that value, or none.\<close>

definition set_select_value :: "string \<Rightarrow> select_el \<Rightarrow> select_el" where
  "set_select_value v s = s\<lparr>sel_index := index_of v (sel_options s)\<rparr>"

text \<open>
  A card of the grid: the values the template of \<^verbatim>\<open>card.innerHTML\<close> is filled with (the
  image source, the texts, the class of the stock line, the two arguments of
  \<^verbatim>\<open>showHistory\<close> and the link). The first script's card has no store badge.
\<close>

record card_el =
  card_image :: string
  card_brand :: string
  card_store :: "string option"
  card_model :: string
  card_price :: string
  card_stock_class :: string
  card_stock :: string
  card_history_id :: string
  card_history_name :: string
  card_href :: string

text \<open>
  The content of the element \<^verbatim>\<open>gpu-grid\<close>: the cards appended to it, or the "No GPUs
  Found" message, or the "Connection Error" panel.
\<close>

datatype grid = Cards "card_el list" | EmptyState | ConnectionError

text \<open>
  What the script asks of the browser: a GET request (the cache-busting query of the list
  request left out), the POST request with the chosen store, and setting and clearing the
  interval timer.
\<close>

datatype effect = Fetch string | Post string string | SetInterval nat | ClearInterval

text \<open>
  The state of the page: the global \<^verbatim>\<open>allGPUs\<close>, the controls, the scrape button and
  status line, whether \<^verbatim>\<open>pollInterval\<close> holds a timer, the grid and the time stamp shown
  as "Last Scraped". \<open>clock\<close> is the time in ms and \<open>effects\<close> the requests and timer
  calls made so far, each with its time.
\<close>

record client =
  allGPUs :: json_body
  search_input :: string
  brand_filter :: select_el
  store_filter :: select_el
  scrape_store_select :: select_el
  scrape_btn_disabled :: bool
  scrape_btn_text :: string
  scrape_status_text :: string
  scrape_status_color :: string
  pollInterval :: bool
  gpu_grid :: grid
  last_updated :: jsval
  clock :: nat
  effects :: "(nat \<times> effect) list"

definition emit :: "effect \<Rightarrow> client \<Rightarrow> client" where
  "emit e c = c\<lparr>effects := effects c @ [(clock c, e)]\<rparr>"

definition API_URL_1 :: string where "API_URL_1 = ''http://localhost:5000/api/gpus''"
definition API_URL :: string where "API_URL = ''/api/gpus''"
definition SCRAPE_URL :: string where "SCRAPE_URL = ''/api/scrape''"
definition PLACEHOLDER_URL :: string where
  "PLACEHOLDER_URL = ''https://placehold.co/200x200?text=No+Image''"

text \<open>The delay given to \<^verbatim>\<open>setInterval\<close>, in ms.\<close>

definition POLL_INTERVAL :: nat where "POLL_INTERVAL = 5000"

section \<open>Rendering\<close>

text \<open>
  The stock badge of a card (both scripts):
  \<^verbatim>\<open>if (stockStatus && stockStatus.toString().toUpperCase().includes('IN STOCK'))\<close>.
\<close>

definition stock_class :: "jsval \<Rightarrow> js_error + string" where
  "stock_class stockStatus =
     (if truthy stockStatus then
        (case js_toString stockStatus of
           Inl e \<Rightarrow> Inl e
         | Inr s \<Rightarrow> Inr (if str_includes (toUpperCase s) ''IN STOCK'' then ''stock-in'' else ''stock-out''))
      else Inr ''stock-out'')"

text \<open>
  The image of a card (both scripts):
  \<^verbatim>\<open>if (!imageUrl || imageUrl === 'N/A' || imageUrl.includes('noimageproduct.gif'))\<close>
  puts the placeholder in its place.
\<close>

definition image_src :: "jsval \<Rightarrow> js_error + jsval" where
  "image_src imageUrl =
     (if \<not> truthy imageUrl \<or> imageUrl = JStr ''N/A'' then Inr (JStr PLACEHOLDER_URL)
      else (case js_includes imageUrl ''noimageproduct.gif'' of
              Inl e \<Rightarrow> Inl e
            | Inr b \<Rightarrow> Inr (if b then JStr PLACEHOLDER_URL else imageUrl)))"

text \<open>The body of the \<^verbatim>\<open>try\<close> in \<^verbatim>\<open>renderGPUs\<close> of the first script: one card.\<close>

definition gpu_card_1 :: "gpu option \<Rightarrow> js_error + card_el" where
  "gpu_card_1 g =
     (case g of
        None \<Rightarrow> Inl TypeError
      | Some gpu \<Rightarrow>
          (let stockStatus = js_or (stock_status gpu) (JStr ''Unknown'') in
           case stock_class stockStatus of
             Inl e \<Rightarrow> Inl e
           | Inr stockClass \<Rightarrow>
               (case image_src (last_seen_image_url gpu) of
                  Inl e \<Rightarrow> Inl e
                | Inr imageUrl \<Rightarrow>
                    (let brand = js_or (brand gpu) (JStr ''Unknown'');
                         modelName = js_or (model_name gpu) (JStr ''Unknown Model'');
                         price = js_or (price_usd gpu) (JStr ''0.00'');
                         productUrl = js_or (product_url gpu) (JStr ''#'');
                         productId = product_id gpu
                     in case js_replace_quotes modelName of
                          Inl e \<Rightarrow> Inl e
                        | Inr safeModelName \<Rightarrow>
                            Inr \<lparr>card_image = to_string imageUrl,
                                 card_brand = to_string brand,
                                 card_store = None,
                                 card_model = to_string modelName,
                                 card_price = CHR ''$'' # to_string price,
                                 card_stock_class = stockClass,
                                 card_stock = to_string stockStatus,
                                 card_history_id = to_string productId,
                                 card_history_name = safeModelName,
                                 card_href = to_string productUrl\<rparr>))))"

text \<open>The same in the second script, whose card also carries the store badge.\<close>

definition gpu_card :: "gpu option \<Rightarrow> js_error + card_el" where
  "gpu_card g =
     (case g of
        None \<Rightarrow> Inl TypeError
      | Some gpu \<Rightarrow>
          (let stockStatus = js_or (stock_status gpu) (JStr ''Unknown'') in
           case stock_class stockStatus of
             Inl e \<Rightarrow> Inl e
           | Inr stockClass \<Rightarrow>
               (case image_src (last_seen_image_url gpu) of
                  Inl e \<Rightarrow> Inl e
                | Inr imageUrl \<Rightarrow>
                    (let brand = js_or (brand gpu) (JStr ''Unknown'');
                         modelName = js_or (model_name gpu) (JStr ''Unknown Model'');
                         price = js_or (price_usd gpu) (JStr ''0.00'');
                         productUrl = js_or (product_url gpu) (JStr ''#'');
                         storeName = js_or (store_name gpu) (JStr ''Unknown Store'');
                         productId = product_id gpu
                     in case js_replace_quotes modelName of
                          Inl e \<Rightarrow> Inl e
                        | Inr safeModelName \<Rightarrow>
                            Inr \<lparr>card_image = to_string imageUrl,
                                 card_brand = to_string brand,
                                 card_store = Some (to_string storeName),
                                 card_model = to_string modelName,
                                 card_price = CHR ''$'' # to_string price,
                                 card_stock_class = stockClass,
                                 card_stock = to_string stockStatus,
                                 card_history_id = to_string productId,
                                 card_history_name = safeModelName,
                                 card_href = to_string productUrl\<rparr>))))"

text \<open>
  \<^verbatim>\<open>gpus.forEach\<close> with the \<^verbatim>\<open>try\<close>/\<^verbatim>\<open>catch\<close> around each row: a row whose card
  throws is reported on the console and adds nothing to the grid.
\<close>

fun forEach_card :: "(gpu option \<Rightarrow> js_error + card_el) \<Rightarrow> gpu option list \<Rightarrow> card_el list" where
  "forEach_card mk [] = []"
| "forEach_card mk (g # gs) =
     (case mk g of
        Inl err \<Rightarrow> forEach_card mk gs
      | Inr el \<Rightarrow> el # forEach_card mk gs)"

text \<open>
  The "Last Scraped" line, from the first row of \<^verbatim>\<open>allGPUs\<close>; the element shows the
  locale rendering of the time stamp, the model keeps the time stamp.
\<close>

definition show_last_scraped :: "client \<Rightarrow> client" where
  "show_last_scraped c =
     (case allGPUs c of
        BodyArray (Some g # rest) \<Rightarrow> if truthy (scraped_at g) then c\<lparr>last_updated := scraped_at g\<rparr> else c
      | _ \<Rightarrow> c)"

definition renderGPUs_1 :: "json_body \<Rightarrow> client \<Rightarrow> client" where
  "renderGPUs_1 gpus c =
     (case gpus of
        BodyArray rows \<Rightarrow>
          if rows = [] then c\<lparr>gpu_grid := EmptyState\<rparr>
          else (show_last_scraped c)\<lparr>gpu_grid := Cards (forEach_card gpu_card_1 rows)\<rparr>
      | _ \<Rightarrow> c\<lparr>gpu_grid := EmptyState\<rparr>)"

definition renderGPUs :: "json_body \<Rightarrow> client \<Rightarrow> client" where
  "renderGPUs gpus c =
     (case gpus of
        BodyArray rows \<Rightarrow>
          if rows = [] then c\<lparr>gpu_grid := EmptyState\<rparr>
          else (show_last_scraped c)\<lparr>gpu_grid := Cards (forEach_card gpu_card rows)\<rparr>
      | _ \<Rightarrow> c\<lparr>gpu_grid := EmptyState\<rparr>)"

section \<open>Filtering\<close>

text \<open>The callback of \<^verbatim>\<open>allGPUs.filter\<close> in the first script (search and brand).\<close>

definition gpu_matches_1 :: "string \<Rightarrow> string \<Rightarrow> gpu option \<Rightarrow> js_error + bool" where
  "gpu_matches_1 searchTerm selectedBrand g =
     (case g of
        None \<Rightarrow> Inl TypeError
      | Some gpu \<Rightarrow>
          (case js_toLowerCase (model_name gpu) of
             Inl e \<Rightarrow> Inl e
           | Inr lowered \<Rightarrow>
               (let nameMatch = str_includes lowered searchTerm in
                case js_toUpperCase (js_or (brand gpu) (JStr ''Unknown'')) of
                  Inl e \<Rightarrow> Inl e
                | Inr gpuBrand \<Rightarrow>
                    (let brandMatch = (selectedBrand = ''all'' \<or> gpuBrand = selectedBrand)
                     in Inr (nameMatch \<and> brandMatch)))))"

text \<open>The callback in the second script (search, brand and store).\<close>

definition gpu_matches :: "string \<Rightarrow> string \<Rightarrow> string \<Rightarrow> gpu option \<Rightarrow> js_error + bool" where
  "gpu_matches searchTerm selectedBrand selectedStore g =
     (case g of
        None \<Rightarrow> Inl TypeError
      | Some gpu \<Rightarrow>
          (case js_toLowerCase (model_name gpu) of
             Inl e \<Rightarrow> Inl e
           | Inr lowered \<Rightarrow>
               (let nameMatch = str_includes lowered searchTerm in
                case js_toUpperCase (js_or (brand gpu) (JStr ''Unknown'')) of
                  Inl e \<Rightarrow> Inl e
                | Inr gpuBrand \<Rightarrow>
                    (let brandMatch = (selectedBrand = ''all'' \<or> gpuBrand = selectedBrand);
                         gpuStore = js_or (store_name gpu) (JStr ''Unknown'');
                         storeMatch = (selectedStore = ''all'' \<or> gpuStore = JStr selectedStore)
                     in Inr (nameMatch \<and> brandMatch \<and> storeMatch)))))"

text \<open>
  \<^verbatim>\<open>filterGPUs\<close>, the listener of the filter controls: it reads the controls, filters the
  whole of \<^verbatim>\<open>allGPUs\<close> and renders the result. \<open>Inl\<close> is an exception that leaves the
  listener (nothing has been written to the page by then).
\<close>

definition filterGPUs_1 :: "client \<Rightarrow> js_error + client" where
  "filterGPUs_1 c =
     (let searchTerm = toLowerCase (search_input c);
          selectedBrand = select_value (brand_filter c)
      in case allGPUs c of
           BodyArray rows \<Rightarrow>
             (case js_filter (gpu_matches_1 searchTerm selectedBrand) rows of
                Inl e \<Rightarrow> Inl e
              | Inr filtered \<Rightarrow> Inr (renderGPUs_1 (BodyArray filtered) c))
         | _ \<Rightarrow> Inl TypeError)"

definition filterGPUs :: "client \<Rightarrow> js_error + client" where
  "filterGPUs c =
     (let searchTerm = toLowerCase (search_input c);
          selectedBrand = select_value (brand_filter c);
          selectedStore = select_value (store_filter c)
      in case allGPUs c of
           BodyArray rows \<Rightarrow>
             (case js_filter (gpu_matches searchTerm selectedBrand selectedStore) rows of
                Inl e \<Rightarrow> Inl e
              | Inr filtered \<Rightarrow> Inr (renderGPUs (BodyArray filtered) c))
         | _ \<Rightarrow> Inl TypeError)"

text \<open>
  A change of one of the three filter controls, followed by the listener. An exception
  that leaves the listener is reported by the browser and the page stays as it is.
\<close>

datatype filter_input = SearchInput string | BrandChange nat | StoreChange nat

definition change_control :: "filter_input \<Rightarrow> client \<Rightarrow> client" where
  "change_control ev c =
     (case ev of
        SearchInput s \<Rightarrow> c\<lparr>search_input := s\<rparr>
      | BrandChange i \<Rightarrow>
          if i < length (sel_options (brand_filter c))
          then c\<lparr>brand_filter := (brand_filter c)\<lparr>sel_index := Some i\<rparr>\<rparr> else c
      | StoreChange i \<Rightarrow>
          if i < length (sel_options (store_filter c))
          then c\<lparr>store_filter := (store_filter c)\<lparr>sel_index := Some i\<rparr>\<rparr> else c)"

definition on_filter_change :: "filter_input \<Rightarrow> client \<Rightarrow> client" where
  "on_filter_change ev c =
     (let c1 = change_control ev c in
      case filterGPUs c1 of Inl e \<Rightarrow> c1 | Inr c2 \<Rightarrow> c2)"


section \<open>Filling the filter dropdowns\<close>

text \<open>
  The loop \<^verbatim>\<open>if (gpu.brand && gpu.brand !== 'Unknown') brands.add(gpu.brand.toUpperCase())\<close>
  over the rows; the accumulator is the set \<^verbatim>\<open>brands\<close>.
\<close>

fun collect_brands :: "gpu option list \<Rightarrow> string list \<Rightarrow> js_error + string list" where
  "collect_brands [] brands = Inr brands"
| "collect_brands (g # gs) brands =
     (case g of
        None \<Rightarrow> Inl TypeError
      | Some gpu \<Rightarrow>
          if truthy (brand gpu) \<and> brand gpu \<noteq> JStr ''Unknown'' then
            (case js_toUpperCase (brand gpu) of
               Inl e \<Rightarrow> Inl e
             | Inr b \<Rightarrow> collect_brands gs (set_add brands b))
          else collect_brands gs brands)"

text \<open>The loop \<^verbatim>\<open>if (gpu.store_name) stores.add(gpu.store_name)\<close>.\<close>

fun collect_stores :: "gpu option list \<Rightarrow> jsval list \<Rightarrow> js_error + jsval list" where
  "collect_stores [] stores = Inr stores"
| "collect_stores (g # gs) stores =
     (case g of
        None \<Rightarrow> Inl TypeError
      | Some gpu \<Rightarrow>
          if truthy (store_name gpu) then collect_stores gs (set_add stores (store_name gpu))
          else collect_stores gs stores)"

text \<open>
  \<^verbatim>\<open>populateBrands\<close> of the first script. The result is the page as the function leaves
  it, with the exception when it throws: the dropdown is reset before the rows are read.
\<close>

definition populateBrands :: "json_body \<Rightarrow> client \<Rightarrow> js_error option \<times> client" where
  "populateBrands gpus c =
     (let c1 = c\<lparr>brand_filter := set_options [''all''] (brand_filter c)\<rparr> in
      case gpus of
        BodyArray rows \<Rightarrow>
          (case collect_brands rows [] of
             Inl e \<Rightarrow> (Some e, c1)
           | Inr brands \<Rightarrow>
               (None, c1\<lparr>brand_filter := foldl (\<lambda>s b. append_option b s) (brand_filter c1) (sort brands)\<rparr>))
      | _ \<Rightarrow> (Some TypeError, c1))"

text \<open>
  \<^verbatim>\<open>populateFilters\<close> of the second script: both dropdowns are rebuilt from the rows
  (\<^verbatim>\<open>sort()\<close> orders by the string of each member), then the selection read at the
  start is put back where it is still on offer.
\<close>

definition populateFilters :: "json_body \<Rightarrow> client \<Rightarrow> js_error option \<times> client" where
  "populateFilters gpus c =
     (let currentBrand = select_value (brand_filter c);
          currentStore = select_value (store_filter c)
      in case gpus of
           BodyArray rows \<Rightarrow>
             (case collect_brands rows [] of
                Inl e \<Rightarrow> (Some e, c)
              | Inr brands \<Rightarrow>
                  (let c1 = c\<lparr>brand_filter := set_options (''all'' # sort brands) (brand_filter c)\<rparr> in
                   case collect_stores rows [] of
                     Inl e \<Rightarrow> (Some e, c1)
                   | Inr stores \<Rightarrow>
                       (let c2 = c1\<lparr>store_filter :=
                                  set_options (''all'' # map to_string (sort_key to_string stores)) (store_filter c1)\<rparr>;
                            c3 = (if currentBrand \<in> set brands \<or> currentBrand = ''all''
                                  then c2\<lparr>brand_filter := set_select_value currentBrand (brand_filter c2)\<rparr>
                                  else c2);
                            c4 = (if JStr currentStore \<in> set stores \<or> currentStore = ''all''
                                  then c3\<lparr>store_filter := set_select_value currentStore (store_filter c3)\<rparr>
                                  else c3)
                        in (None, c4))))
         | _ \<Rightarrow> (Some TypeError, c))"

section \<open>Fetching the list\<close>

datatype gpus_response = FetchFailed | Body json_body

text \<open>
  \<^verbatim>\<open>fetchGPUs\<close> of the first script. \<open>FetchFailed\<close> is a rejected \<^verbatim>\<open>fetch\<close> or a body
  that is not JSON. Every exception ends in the \<^verbatim>\<open>catch\<close>, which writes the
  "Connection Error" panel into the grid.
\<close>

definition fetchGPUs_1 :: "gpus_response \<Rightarrow> client \<Rightarrow> client" where
  "fetchGPUs_1 resp c =
     (let c0 = emit (Fetch API_URL_1) c in
      case resp of
        FetchFailed \<Rightarrow> c0\<lparr>gpu_grid := ConnectionError\<rparr>
      | Body BodyNull \<Rightarrow> c0\<lparr>gpu_grid := ConnectionError\<rparr>
      | Body data \<Rightarrow>
          (let c1 = c0\<lparr>allGPUs := data\<rparr> in
           case populateBrands data c1 of
             (Some e, c2) \<Rightarrow> c2\<lparr>gpu_grid := ConnectionError\<rparr>
           | (None, c2) \<Rightarrow> renderGPUs_1 data c2))"

text \<open>
  \<^verbatim>\<open>fetchGPUs(isPolling)\<close> of the second script: the \<^verbatim>\<open>catch\<close> writes the panel only
  \<^verbatim>\<open>if (!isPolling)\<close>.
\<close>

definition fetchGPUs :: "bool \<Rightarrow> gpus_response \<Rightarrow> client \<Rightarrow> client" where
  "fetchGPUs isPolling resp c =
     (let c0 = emit (Fetch API_URL) c;
          caught = (\<lambda>c'. if \<not> isPolling then c'\<lparr>gpu_grid := ConnectionError\<rparr> else c')
      in case resp of
           FetchFailed \<Rightarrow> caught c0
         | Body data \<Rightarrow>
             (let c1 = c0\<lparr>allGPUs := data\<rparr> in
              case populateFilters data c1 of
                (Some e, c2) \<Rightarrow> caught c2
              | (None, c2) \<Rightarrow> renderGPUs data c2))"

section \<open>Triggering a scrape and polling its status\<close>


datatype scrape_response = ScrapeFailed | ScrapeBody nat jsval jsval

text \<open>\<^verbatim>\<open>startPolling\<close>: one interval of 5000 ms, unless one is already set.\<close>

definition startPolling :: "client \<Rightarrow> client" where
  "startPolling c = (if pollInterval c then c else emit (SetInterval POLL_INTERVAL) (c\<lparr>pollInterval := True\<rparr>))"




text \<open>
  \<^verbatim>\<open>triggerScrape\<close>. \<open>ScrapeBody status message error\<close> is the response of
  \<^verbatim>\<open>POST /api/scrape\<close> with its HTTP status and the two fields of its body the script
  reads; \<open>ScrapeFailed\<close> is any exception of the request.
\<close>

definition triggerScrape :: "scrape_response \<Rightarrow> client \<Rightarrow> client" where
  "triggerScrape resp c =
     (let storeId = select_value (scrape_store_select c) in
      if storeId = [] then c
      else
        (let c1 = emit (Post SCRAPE_URL storeId)
                    (c\<lparr>scrape_btn_disabled := True,
                       scrape_btn_text := ''Starting...'',
                       scrape_status_text := ''Initializing...'',
                       scrape_status_color := ''blue''\<rparr>)
         in case resp of
              ScrapeFailed \<Rightarrow>
                c1\<lparr>scrape_status_text := ''Connection failed.'',
                   scrape_status_color := ''red'',
                   scrape_btn_disabled := False,
                   scrape_btn_text := ''Update Stock Now''\<rparr>
            | ScrapeBody status message error \<Rightarrow>
                (let ok = (200 \<le> status \<and> status \<le> 299) in
                 if ok \<or> status = 409 then
                   startPolling
                     (c1\<lparr>scrape_status_text := text_content (js_or message error),
                         scrape_status_color := (if ok then ''green'' else ''orange'')\<rparr>)
                 else
                   c1\<lparr>scrape_status_text := ''Error: '' @ to_string error,
                      scrape_status_color := ''red'',
                      scrape_btn_disabled := False,
                      scrape_btn_text := ''Update Stock Now''\<rparr>)))"


section \<open>The database schema\<close>

text \<open>
  The four tables of the schema script (\<^verbatim>\<open>src/unnamed/part_000\<close>). A column is named
  \<open>table_column\<close>; a column that may be NULL is an option; \<^verbatim>\<open>DECIMAL(10,2)\<close> is the
  amount in cents and \<^verbatim>\<open>TIMESTAMP\<close> a number of seconds.
\<close>

record stores_row =
  stores_store_id :: int
  stores_name :: string
  stores_city :: string
  stores_state :: string

record gpus_row =
  gpus_gpu_id :: int
  gpus_brand :: "string option"
  gpus_model_name :: string
  gpus_manufacturer :: "string option"
  gpus_full_name :: string

record products_row =
  products_product_id :: int
  products_store_id :: int
  products_gpu_id :: int
  products_microcenter_sku :: string
  products_product_url :: "string option"
  products_last_seen_image_url :: "string option"

record price_history_row =
  price_history_history_id :: int
  price_history_product_id :: int
  price_history_price_usd :: int
  price_history_stock_status :: string
  price_history_scraped_at :: nat

text \<open>The rows of each table in insertion order, and the AUTO_INCREMENT counters.\<close>

record database =
  stores :: "stores_row list"
  gpus :: "gpus_row list"
  products :: "products_row list"
  price_history :: "price_history_row list"
  next_store_id :: int
  next_gpu_id :: int
  next_product_id :: int
  next_history_id :: int

definition empty_database :: database where
  "empty_database =
     \<lparr>stores = [], gpus = [], products = [], price_history = [],
      next_store_id = 1, next_gpu_id = 1, next_product_id = 1, next_history_id = 1\<rparr>"

text \<open>The three foreign keys, with the referential actions the script declares.\<close>

datatype fk_action = RESTRICT | CASCADE

record foreign_key =
  on_delete :: fk_action
  on_update :: fk_action

definition fk_products_stores :: foreign_key where
  "fk_products_stores = \<lparr>on_delete = RESTRICT, on_update = CASCADE\<rparr>"

definition fk_products_gpus :: foreign_key where
  "fk_products_gpus = \<lparr>on_delete = RESTRICT, on_update = CASCADE\<rparr>"

definition fk_price_history_products :: foreign_key where
  "fk_price_history_products = \<lparr>on_delete = CASCADE, on_update = CASCADE\<rparr>"

datatype sql_error = DuplicateKey | ForeignKeyViolation

text \<open>
  INSERT into each table: the unique index of the table and its foreign keys are checked,
  the primary key comes from the counter.
\<close>

definition insert_store :: "string \<Rightarrow> string \<Rightarrow> string \<Rightarrow> database \<Rightarrow> sql_error + int \<times> database" where
  "insert_store name city state d =
     (if \<exists>s \<in> set (stores d). stores_name s = name \<and> stores_city s = city \<and> stores_state s = state
      then Inl DuplicateKey
      else Inr (next_store_id d,
                d\<lparr>stores := stores d @
                     [\<lparr>stores_store_id = next_store_id d, stores_name = name,
                       stores_city = city, stores_state = state\<rparr>],
                  next_store_id := next_store_id d + 1\<rparr>))"

definition insert_gpu ::
  "string option \<Rightarrow> string \<Rightarrow> string option \<Rightarrow> string \<Rightarrow> database \<Rightarrow> sql_error + int \<times> database" where
  "insert_gpu b model mf full d =
     (if \<exists>g \<in> set (gpus d). gpus_full_name g = full
      then Inl DuplicateKey
      else Inr (next_gpu_id d,
                d\<lparr>gpus := gpus d @
                     [\<lparr>gpus_gpu_id = next_gpu_id d, gpus_brand = b, gpus_model_name = model,
                       gpus_manufacturer = mf, gpus_full_name = full\<rparr>],
                  next_gpu_id := next_gpu_id d + 1\<rparr>))"

definition insert_product ::
  "int \<Rightarrow> int \<Rightarrow> string \<Rightarrow> string option \<Rightarrow> string option \<Rightarrow> database \<Rightarrow> sql_error + int \<times> database" where
  "insert_product sid gid sku url img d =
     (if \<exists>p \<in> set (products d). products_microcenter_sku p = sku then Inl DuplicateKey
      else if \<not> (\<exists>s \<in> set (stores d). stores_store_id s = sid) then Inl ForeignKeyViolation
      else if \<not> (\<exists>g \<in> set (gpus d). gpus_gpu_id g = gid) then Inl ForeignKeyViolation
      else Inr (next_product_id d,
                d\<lparr>products := products d @
                     [\<lparr>products_product_id = next_product_id d, products_store_id = sid,
                       products_gpu_id = gid, products_microcenter_sku = sku,
                       products_product_url = url, products_last_seen_image_url = img\<rparr>],
                  next_product_id := next_product_id d + 1\<rparr>))"

definition insert_price_history :: "int \<Rightarrow> int \<Rightarrow> string \<Rightarrow> nat \<Rightarrow> database \<Rightarrow> sql_error + int \<times> database" where
  "insert_price_history pid price stock at d =
     (if \<not> (\<exists>p \<in> set (products d). products_product_id p = pid) then Inl ForeignKeyViolation
      else Inr (next_history_id d,
                d\<lparr>price_history := price_history d @
                     [\<lparr>price_history_history_id = next_history_id d, price_history_product_id = pid,
                       price_history_price_usd = price, price_history_stock_status = stock,
                       price_history_scraped_at = at\<rparr>],
                  next_history_id := next_history_id d + 1\<rparr>))"

text \<open>
  DELETE of a row by its primary key. A row that does not exist deletes nothing. The rows
  referencing it decide as their foreign key says: RESTRICT refuses the statement while
  one exists, CASCADE deletes them with the row.
\<close>

definition delete_product :: "int \<Rightarrow> database \<Rightarrow> sql_error + database" where
  "delete_product pid d =
     (if \<not> (\<exists>p \<in> set (products d). products_product_id p = pid) then Inr d
      else
        (case on_delete fk_price_history_products of
           RESTRICT \<Rightarrow>
             if \<exists>h \<in> set (price_history d). price_history_product_id h = pid
             then Inl ForeignKeyViolation
             else Inr (d\<lparr>products := filter (\<lambda>p. products_product_id p \<noteq> pid) (products d)\<rparr>)
         | CASCADE \<Rightarrow>
             Inr (d\<lparr>price_history := filter (\<lambda>h. price_history_product_id h \<noteq> pid) (price_history d),
                    products := filter (\<lambda>p. products_product_id p \<noteq> pid) (products d)\<rparr>)))"

fun delete_products :: "int list \<Rightarrow> database \<Rightarrow> sql_error + database" where
  "delete_products [] d = Inr d"
| "delete_products (pid # pids) d =
     (case delete_product pid d of
        Inl e \<Rightarrow> Inl e
      | Inr d' \<Rightarrow> delete_products pids d')"

definition delete_store :: "int \<Rightarrow> database \<Rightarrow> sql_error + database" where
  "delete_store sid d =
     (if \<not> (\<exists>s \<in> set (stores d). stores_store_id s = sid) then Inr d
      else
        (let children = filter (\<lambda>p. products_store_id p = sid) (products d) in
         case on_delete fk_products_stores of
           RESTRICT \<Rightarrow>
             if children \<noteq> [] then Inl ForeignKeyViolation
             else Inr (d\<lparr>stores := filter (\<lambda>s. stores_store_id s \<noteq> sid) (stores d)\<rparr>)
         | CASCADE \<Rightarrow>
             (case delete_products (map products_product_id children) d of
                Inl e \<Rightarrow> Inl e
              | Inr d' \<Rightarrow> Inr (d'\<lparr>stores := filter (\<lambda>s. stores_store_id s \<noteq> sid) (stores d')\<rparr>))))"

definition delete_gpu :: "int \<Rightarrow> database \<Rightarrow> sql_error + database" where
  "delete_gpu gid d =
     (if \<not> (\<exists>g \<in> set (gpus d). gpus_gpu_id g = gid) then Inr d
      else
        (let children = filter (\<lambda>p. products_gpu_id p = gid) (products d) in
         case on_delete fk_products_gpus of
           RESTRICT \<Rightarrow>
             if children \<noteq> [] then Inl ForeignKeyViolation
             else Inr (d\<lparr>gpus := filter (\<lambda>g. gpus_gpu_id g \<noteq> gid) (gpus d)\<rparr>)
         | CASCADE \<Rightarrow>
             (case delete_products (map products_product_id children) d of
                Inl e \<Rightarrow> Inl e
              | Inr d' \<Rightarrow> Inr (d'\<lparr>gpus := filter (\<lambda>g. gpus_gpu_id g \<noteq> gid) (gpus d')\<rparr>))))"

text \<open>A statement that fails is rolled back: the database is as it was before it.\<close>

definition after_statement :: "database \<Rightarrow> sql_error + database \<Rightarrow> database" where
  "after_statement d r = (case r of Inl e \<Rightarrow> d | Inr d' \<Rightarrow> d')"

text \<open>An example: one store, one GPU, one product of it at the store, two observations.\<close>

definition tracked_example :: database where
  "tracked_example =
     \<lparr>stores = [\<lparr>stores_store_id = 1, stores_name = ''Tustin'', stores_city = ''Tustin'', stores_state = ''CA''\<rparr>],
      gpus = [\<lparr>gpus_gpu_id = 1, gpus_brand = Some ''NVIDIA'', gpus_model_name = ''GeForce RTX 4090'',
               gpus_manufacturer = Some ''ASUS'', gpus_full_name = ''ASUS NVIDIA GeForce RTX 4090 TUF''\<rparr>],
      products = [\<lparr>products_product_id = 1, products_store_id = 1, products_gpu_id = 1,
                   products_microcenter_sku = ''649251'', products_product_url = None,
                   products_last_seen_image_url = None\<rparr>],
      price_history =
        [\<lparr>price_history_history_id = 1, price_history_product_id = 1, price_history_price_usd = 159999,
          price_history_stock_status = ''In Stock'', price_history_scraped_at = 100\<rparr>,
         \<lparr>price_history_history_id = 2, price_history_product_id = 1, price_history_price_usd = 154999,
          price_history_stock_status = ''Sold Out'', price_history_scraped_at = 200\<rparr>],
      next_store_id = 2, next_gpu_id = 2, next_product_id = 2, next_history_id = 3\<rparr>"

text \<open>
  Modelled from the spec: the scraper that writes to the database is not among the
  sources. The spec (4.1, 3) gives its writes: upsert by natural key for Store, GPU and
  Product ("look up existing row, reuse its identifier"; a Product's image URL is
  "overwritten on each successful scrape") and append for PriceHistoryEntry.
\<close>

definition upsert_store :: "string \<Rightarrow> string \<Rightarrow> string \<Rightarrow> database \<Rightarrow> sql_error + int \<times> database" where
  "upsert_store name city state d =
     (case find (\<lambda>s. stores_name s = name \<and> stores_city s = city \<and> stores_state s = state) (stores d) of
        Some s \<Rightarrow> Inr (stores_store_id s, d)
      | None \<Rightarrow> insert_store name city state d)"

text \<open>Modelled from the spec: the scraper's upsert of a GPU by its full product name.\<close>

definition upsert_gpu ::
  "string option \<Rightarrow> string \<Rightarrow> string option \<Rightarrow> string \<Rightarrow> database \<Rightarrow> sql_error + int \<times> database" where
  "upsert_gpu b model mf full d =
     (case find (\<lambda>g. gpus_full_name g = full) (gpus d) of
        Some g \<Rightarrow> Inr (gpus_gpu_id g, d)
      | None \<Rightarrow> insert_gpu b model mf full d)"

text \<open>
  Modelled from the spec: the scraper's upsert of a Product by its SKU; a Product seen
  again gets the new image URL.
\<close>

definition upsert_product ::
  "int \<Rightarrow> int \<Rightarrow> string \<Rightarrow> string option \<Rightarrow> string option \<Rightarrow> database \<Rightarrow> sql_error + int \<times> database" where
  "upsert_product sid gid sku url img d =
     (case find (\<lambda>p. products_microcenter_sku p = sku) (products d) of
        Some p \<Rightarrow>
          Inr (products_product_id p,
               d\<lparr>products := map (\<lambda>q. if products_microcenter_sku q = sku
                                       then q\<lparr>products_last_seen_image_url := img\<rparr> else q) (products d)\<rparr>)
      | None \<Rightarrow> insert_product sid gid sku url img d)"

text \<open>
  Modelled from the spec: the writes the system performs on the database: the scraper's
  (the upserts and the append of an observation) and the deletion of a row by its key
  from the three tables that are referenced (the spec speaks of deleting a Product and a
  Store). The spec has no write that updates or deletes a history row, nor one that
  changes a key.
\<close>

datatype db_op =
    UpsertStore string string string
  | UpsertGpu "string option" string "string option" string
  | UpsertProduct int int string "string option" "string option"
  | AppendHistory int int string nat
  | DeleteProduct int
  | DeleteStore int
  | DeleteGpu int

text \<open>Modelled from the spec: one write, as the statement the database executes.\<close>

definition exec_op :: "db_op \<Rightarrow> database \<Rightarrow> sql_error + database" where
  "exec_op op d =
     (case op of
        UpsertStore name city state \<Rightarrow> map_sum id snd (upsert_store name city state d)
      | UpsertGpu b model mf full \<Rightarrow> map_sum id snd (upsert_gpu b model mf full d)
      | UpsertProduct sid gid sku url img \<Rightarrow> map_sum id snd (upsert_product sid gid sku url img d)
      | AppendHistory pid price stock at \<Rightarrow> map_sum id snd (insert_price_history pid price stock at d)
      | DeleteProduct pid \<Rightarrow> delete_product pid d
      | DeleteStore sid \<Rightarrow> delete_store sid d
      | DeleteGpu gid \<Rightarrow> delete_gpu gid d)"

text \<open>Modelled from the spec: the writes run one after the other, each as one statement.\<close>

definition apply_op :: "database \<Rightarrow> db_op \<Rightarrow> database" where
  "apply_op d op = after_statement d (exec_op op d)"

text \<open>Modelled from the spec: a sequence of writes.\<close>

definition run_ops :: "db_op list \<Rightarrow> database \<Rightarrow> database" where
  "run_ops ops d = foldl apply_op d ops"

text \<open>Every history row references a Product that exists.\<close>

definition no_orphans :: "database \<Rightarrow> bool" where
  "no_orphans d =
     (\<forall>h \<in> set (price_history d). \<exists>p \<in> set (products d). products_product_id p = price_history_product_id h)"

section \<open>The scrape job controller\<close>

text \<open>
  Modelled from the spec: the server behind \<^verbatim>\<open>POST /api/scrape\<close> and
  \<^verbatim>\<open>GET /api/status\<close> is not among the sources. The spec (4.2) gives its state: "a
  single global mutable flag plus a message string", Idle or Running, with the completion
  message "retained for the next status read". The model adds the jobs in flight (the
  store each one scrapes), so that "at most one job" is a statement about them.
\<close>

record controller =
  is_scraping :: bool
  message :: string
  jobs :: "int list"

text \<open>Modelled from the spec: the controller starts Idle with no job.\<close>

definition initial_controller :: controller where
  "initial_controller = \<lparr>is_scraping = False, message = [], jobs = []\<rparr>"

text \<open>
  Modelled from the spec: the two answers to a trigger request, "started" (200 at the
  API) and "already in progress" (409).
\<close>

datatype trigger_reply = Started | AlreadyInProgress

text \<open>
  Modelled from the spec: "A request to start a scrape while state is Running is rejected
  (reports already in progress, not an error) and does not start a second job. A request
  while Idle transitions to Running, begins the scrape asynchronously and returns
  immediately." The reply is made in the same step, with the job still in flight.
\<close>

definition trigger_scrape :: "int \<Rightarrow> controller \<Rightarrow> trigger_reply \<times> controller" where
  "trigger_scrape store c =
     (if is_scraping c then (AlreadyInProgress, c)
      else (Started, c\<lparr>is_scraping := True, jobs := jobs c @ [store]\<rparr>))"

text \<open>
  Modelled from the spec: "On completion (success or failure) state returns to Idle and a
  human-readable completion message is retained for the next status read." Without a job
  in flight nothing completes.
\<close>

definition job_completes :: "string \<Rightarrow> controller \<Rightarrow> controller" where
  "job_completes msg c =
     (case jobs c of
        [] \<Rightarrow> c
      | j # rest \<Rightarrow> c\<lparr>is_scraping := False, message := msg, jobs := rest\<rparr>)"

text \<open>Modelled from the spec: "Status: current Idle/Running state and last completion message."\<close>

definition read_status :: "controller \<Rightarrow> bool \<times> string" where
  "read_status c = (is_scraping c, message c)"

text \<open>Modelled from the spec: what can happen to the controller, one event at a time.\<close>

datatype controller_event = TriggerRequest int | StatusRequest | JobCompletes string

text \<open>Modelled from the spec: the controller's reaction to one event.\<close>

definition controller_step :: "controller \<Rightarrow> controller_event \<Rightarrow> controller" where
  "controller_step c ev =
     (case ev of
        TriggerRequest store \<Rightarrow> snd (trigger_scrape store c)
      | StatusRequest \<Rightarrow> c
      | JobCompletes msg \<Rightarrow> job_completes msg c)"

text \<open>Modelled from the spec: the controller's state after a sequence of events.\<close>

definition run_controller :: "controller_event list \<Rightarrow> controller \<Rightarrow> controller" where
  "run_controller evs c = foldl controller_step c evs"

text \<open>
  Modelled from the spec: the state the controller is meant to keep ("at most one scrape
  operation runs at a time"): the flag is set exactly while a job is in flight, and no
  two jobs are.
\<close>

definition controller_ok :: "controller \<Rightarrow> bool" where
  "controller_ok c = ((is_scraping c \<longleftrightarrow> jobs c \<noteq> []) \<and> length (jobs c) \<le> 1)"

section \<open>The properties in the words of the specification\<close>

text \<open>
  A row as \<^verbatim>\<open>GET /api/gpus\<close> delivers it (spec 6; in the schema \<^verbatim>\<open>gpus.model_name\<close> is
  NOT NULL and \<^verbatim>\<open>gpus.brand\<close> may be NULL): an object whose model name is a string and
  whose brand is a string or null.
\<close>

fun is_string :: "jsval \<Rightarrow> bool" where
  "is_string (JStr s) = True"
| "is_string v = False"

definition view_row :: "gpu option \<Rightarrow> bool" where
  "view_row g =
     (case g of
        None \<Rightarrow> False
      | Some gpu \<Rightarrow> is_string (model_name gpu) \<and> (is_string (brand gpu) \<or> brand gpu = JNull))"

text \<open>The model name contains the search text, letter case aside.\<close>

definition name_contains :: "string \<Rightarrow> gpu \<Rightarrow> bool" where
  "name_contains t gpu =
     (case model_name gpu of
        JStr s \<Rightarrow> sublist (toLowerCase t) (toLowerCase s)
      | _ \<Rightarrow> False)"

text \<open>The brand of the row, in upper case, is \<open>b\<close>.\<close>

definition brand_uppercases_to :: "string \<Rightarrow> gpu \<Rightarrow> bool" where
  "brand_uppercases_to b gpu =
     (case brand gpu of
        JStr s \<Rightarrow> toUpperCase s = b
      | _ \<Rightarrow> False)"

text \<open>
  The brand dropdown lets the row through: it stands on "all", or on the row's brand in
  upper case; a row without a brand goes under \<^verbatim>\<open>UNKNOWN\<close>.
\<close>

definition brand_selected :: "string \<Rightarrow> gpu \<Rightarrow> bool" where
  "brand_selected b gpu =
     (b = ''all'' \<or> (if truthy (brand gpu) then brand_uppercases_to b gpu else b = ''UNKNOWN''))"

text \<open>
  The store dropdown lets the row through: it stands on "all", or on exactly the row's
  store name; a row without a store name goes under \<^verbatim>\<open>Unknown\<close>.
\<close>

definition store_selected :: "string \<Rightarrow> gpu \<Rightarrow> bool" where
  "store_selected st gpu =
     (st = ''all'' \<or> (if truthy (store_name gpu) then store_name gpu = JStr st else st = ''Unknown''))"

definition visible :: "string \<Rightarrow> string \<Rightarrow> string \<Rightarrow> gpu option \<Rightarrow> bool" where
  "visible t b st g =
     (case g of
        None \<Rightarrow> False
      | Some gpu \<Rightarrow> name_contains t gpu \<and> brand_selected b gpu \<and> store_selected st gpu)"

section \<open>Example data\<close>

definition example_row :: "int \<Rightarrow> string \<Rightarrow> string \<Rightarrow> string \<Rightarrow> gpu" where
  "example_row n b m st =
     \<lparr>product_id = JNum n, brand = JStr b, model_name = JStr m, manufacturer = JNull,
      full_name = JStr m, price_usd = JStr ''1599.99'', stock_status = JStr ''In Stock'',
      product_url = JNull, last_seen_image_url = JNull, store_name = JStr st,
      scraped_at = JStr ''2024-01-01''\<rparr>"

definition example_rows :: "gpu option list" where
  "example_rows =
     [Some (example_row 1 ''Nvidia'' ''GeForce RTX 4090'' ''Tustin''),
      Some (example_row 2 ''AMD'' ''Radeon RX 7900'' ''Tustin''),
      Some (example_row 3 ''NVIDIA'' ''GeForce RTX 4080'' ''Denver''),
      Some (example_row 4 ''NVIDIA'' ''RTX 4090 Ti'' ''Denver'')]"

text \<open>A page showing these rows, with "4090" typed into the search box and NVIDIA selected.\<close>

definition example_client :: client where
  "example_client =
     \<lparr>allGPUs = BodyArray example_rows,
      search_input = ''4090'',
      brand_filter = \<lparr>sel_options = [''all'', ''AMD'', ''NVIDIA''], sel_index = Some 2\<rparr>,
      store_filter = \<lparr>sel_options = [''all'', ''Denver'', ''Tustin''], sel_index = Some 0\<rparr>,
      scrape_store_select = \<lparr>sel_options = [''1''], sel_index = Some 0\<rparr>,
      scrape_btn_disabled = False,
      scrape_btn_text = ''Update Stock Now'',
      scrape_status_text = [],
      scrape_status_color = [],
      pollInterval = False,
      gpu_grid = Cards [],
      last_updated = JUndefined,
      clock = 0,
      effects = []\<rparr>"

text \<open>What a card shows for a field: its value, or the placeholder when the field is missing.\<close>

definition shown :: "jsval \<Rightarrow> string \<Rightarrow> string" where
  "shown v placeholder = (if truthy v then to_string v else placeholder)"

text \<open>
  The row has no image of its own: the URL is absent, or is one of the vendor's
  "no image" markers.
\<close>

definition no_image :: "jsval \<Rightarrow> bool" where
  "no_image v =
     (\<not> truthy v \<or> v = JStr ''N/A'' \<or> (case v of JStr s \<Rightarrow> sublist ''noimageproduct.gif'' s | _ \<Rightarrow> False))"

text \<open>
  The rows the card code can handle: every method it calls exists on the value it is
  called on (the image URL and the model name are strings where they are present).
\<close>

definition renders :: "gpu \<Rightarrow> bool" where
  "renders gpu =
     ((\<not> truthy (last_seen_image_url gpu) \<or> is_string (last_seen_image_url gpu)) \<and>
      (\<not> truthy (model_name gpu) \<or> is_string (model_name gpu)))"

definition stock_badge :: "jsval \<Rightarrow> string" where
  "stock_badge v =
     (if sublist ''IN STOCK'' (toUpperCase (shown v ''Unknown'')) then ''stock-in'' else ''stock-out'')"

text \<open>A row with every field missing, and a row whose image URL is a number.\<close>

definition blank_row :: gpu where
  "blank_row =
     \<lparr>product_id = JNull, brand = JNull, model_name = JNull, manufacturer = JNull,
      full_name = JNull, price_usd = JNull, stock_status = JNull, product_url = JNull,
      last_seen_image_url = JNull, store_name = JNull, scraped_at = JNull\<rparr>"

definition broken_row :: gpu where
  "broken_row = (example_row 5 ''NVIDIA'' ''GeForce RTX 4070'' ''Tustin'')\<lparr>last_seen_image_url := JNum 404\<rparr>"









chapter \<open>Verified properties\<close>

section \<open>The scrape job controller: at most one job\<close>

lemma controller_ok_initial: "controller_ok initial_controller"
  by (simp add: controller_ok_def initial_controller_def)

lemma controller_ok_step: "controller_ok c \<Longrightarrow> controller_ok (controller_step c ev)"
  by (cases ev; cases "jobs c")
     (auto simp: controller_ok_def controller_step_def trigger_scrape_def job_completes_def)

lemma controller_ok_run: "controller_ok c \<Longrightarrow> controller_ok (run_controller evs c)"
  unfolding run_controller_def
  by (induction evs arbitrary: c) (simp_all add: controller_ok_step)

lemma run_without_completion:
  assumes "is_scraping c" and "\<forall>e \<in> set evs. \<forall>m. e \<noteq> JobCompletes m"
  shows "run_controller evs c = c"
  using assms unfolding run_controller_def
proof (induction evs)
  case Nil
  then show ?case by simp
next
  case (Cons e evs)
  from Cons.prems have "controller_step c e = c"
    by (cases e) (simp_all add: controller_step_def trigger_scrape_def)
  with Cons show ?case by simp
qed

text \<open>
  Claim C1. Whatever requests and completions the controller has seen since it started,
  at most one job is in flight, and the flag is set exactly then. While it is Running a
  trigger request is answered "already in progress" and changes nothing: no second job,
  the running job and the retained message as they were; and the state (the message with
  it) stays the same through any further triggers and status reads, until the job
  completes. While it is Idle a trigger request is answered "started" in the same step:
  the state is Running and the new job, the only one, is still in flight.
\<close>

theorem scrape_trigger_at_most_one_job:
  assumes "c = run_controller evs initial_controller"
  shows "length (jobs c) \<le> 1 \<and> (is_scraping c \<longleftrightarrow> jobs c \<noteq> []) \<and>
         (is_scraping c \<longrightarrow>
            trigger_scrape store c = (AlreadyInProgress, c) \<and>
            (\<forall>more. (\<forall>e \<in> set more. \<forall>m. e \<noteq> JobCompletes m) \<longrightarrow> run_controller more c = c)) \<and>
         (\<not> is_scraping c \<longrightarrow>
            trigger_scrape store c = (Started, c\<lparr>is_scraping := True, jobs := [store]\<rparr>))"
proof -
  have ok: "controller_ok c"
    unfolding assms by (rule controller_ok_run [OF controller_ok_initial])
  have busy: "trigger_scrape store c = (AlreadyInProgress, c)" if "is_scraping c"
    using that by (simp add: trigger_scrape_def)
  have idle: "trigger_scrape store c = (Started, c\<lparr>is_scraping := True, jobs := [store]\<rparr>)"
    if "\<not> is_scraping c"
    using that ok by (simp add: trigger_scrape_def controller_ok_def)
  from ok busy idle run_without_completion [of c] show ?thesis
    by (simp add: controller_ok_def)
qed

theorem scrape_trigger_at_most_one_job_witness:
  "run_controller [TriggerRequest 7, StatusRequest, TriggerRequest 9] initial_controller
     = \<lparr>is_scraping = True, message = [], jobs = [7]\<rparr> \<and>
   trigger_scrape 9 \<lparr>is_scraping = True, message = [], jobs = [7]\<rparr>
     = (AlreadyInProgress, \<lparr>is_scraping = True, message = [], jobs = [7]\<rparr>) \<and>
   run_controller [JobCompletes ''done'', TriggerRequest 9] \<lparr>is_scraping = True, message = [], jobs = [7]\<rparr>
     = \<lparr>is_scraping = True, message = ''done'', jobs = [9]\<rparr>"
proof -
  have r: "run_controller [TriggerRequest 7, StatusRequest, TriggerRequest 9] initial_controller
     = \<lparr>is_scraping = True, message = [], jobs = [7]\<rparr>"
    by (simp add: run_controller_def controller_step_def trigger_scrape_def initial_controller_def)
  from scrape_trigger_at_most_one_job [OF r [symmetric], of 9] r show ?thesis
    by (simp add: run_controller_def controller_step_def trigger_scrape_def job_completes_def)
qed

section \<open>The schema: what a DELETE does\<close>

lemma delete_store_unfold:
  "delete_store sid d =
     (if \<not> (\<exists>s \<in> set (stores d). stores_store_id s = sid) then Inr d
      else if \<exists>p \<in> set (products d). products_store_id p = sid then Inl ForeignKeyViolation
      else Inr (d\<lparr>stores := filter (\<lambda>s. stores_store_id s \<noteq> sid) (stores d)\<rparr>))"
  by (auto simp: delete_store_def fk_products_stores_def Let_def filter_empty_conv)

lemma delete_gpu_unfold:
  "delete_gpu gid d =
     (if \<not> (\<exists>g \<in> set (gpus d). gpus_gpu_id g = gid) then Inr d
      else if \<exists>p \<in> set (products d). products_gpu_id p = gid then Inl ForeignKeyViolation
      else Inr (d\<lparr>gpus := filter (\<lambda>g. gpus_gpu_id g \<noteq> gid) (gpus d)\<rparr>))"
  by (auto simp: delete_gpu_def fk_products_gpus_def Let_def filter_empty_conv)

lemma delete_product_unfold:
  "delete_product pid d =
     (if \<not> (\<exists>p \<in> set (products d). products_product_id p = pid) then Inr d
      else Inr (d\<lparr>price_history := filter (\<lambda>h. price_history_product_id h \<noteq> pid) (price_history d),
                  products := filter (\<lambda>p. products_product_id p \<noteq> pid) (products d)\<rparr>))"
  by (simp add: delete_product_def fk_price_history_products_def)


text \<open>
  Claim C4. A store that exists and has a product referencing it cannot be deleted: the
  statement fails with the foreign key error and the database (the store and its
  products with it) is as before. A store that exists and has none is deleted, and
  nothing else changes.
\<close>

theorem delete_store_restricted:
  assumes "s \<in> set (stores d)" and "stores_store_id s = sid"
  shows "if \<exists>p \<in> set (products d). products_store_id p = sid
         then delete_store sid d = Inl ForeignKeyViolation \<and> after_statement d (delete_store sid d) = d
         else delete_store sid d = Inr (d\<lparr>stores := filter (\<lambda>s. stores_store_id s \<noteq> sid) (stores d)\<rparr>)"
proof -
  from assms have ex: "\<exists>s \<in> set (stores d). stores_store_id s = sid" by blast
  show ?thesis
  proof (cases "\<exists>p \<in> set (products d). products_store_id p = sid")
    case True
    with ex have "delete_store sid d = Inl ForeignKeyViolation"
      by (simp add: delete_store_unfold)
    with True show ?thesis by (simp add: after_statement_def)
  next
    case False
    with ex show ?thesis by (simp add: delete_store_unfold)
  qed
qed


theorem delete_store_restricted_witness:
  "delete_store 1 tracked_example = Inl ForeignKeyViolation \<and>
   after_statement tracked_example (delete_store 1 tracked_example) = tracked_example \<and>
   delete_store 1 (tracked_example\<lparr>price_history := [], products := []\<rparr>) =
     Inr (tracked_example\<lparr>price_history := [], products := [], stores := []\<rparr>)"
proof -
  let ?s = "\<lparr>stores_store_id = 1, stores_name = ''Tustin'', stores_city = ''Tustin'', stores_state = ''CA''\<rparr>"
  let ?d = "tracked_example\<lparr>price_history := [], products := []\<rparr>"
  have s: "?s \<in> set (stores tracked_example)" by (simp add: tracked_example_def)
  have id: "stores_store_id ?s = 1" by simp
  have referenced: "\<exists>p \<in> set (products tracked_example). products_store_id p = 1"
    by (simp add: tracked_example_def)
  have s': "?s \<in> set (stores ?d)" by (simp add: tracked_example_def)
  have free: "\<not> (\<exists>p \<in> set (products ?d). products_store_id p = 1)" by simp
  have rest: "filter (\<lambda>s. stores_store_id s \<noteq> 1) (stores tracked_example) = []"
    by (simp add: tracked_example_def)
  from delete_store_restricted [OF s id] referenced
  have "delete_store 1 tracked_example = Inl ForeignKeyViolation \<and>
        after_statement tracked_example (delete_store 1 tracked_example) = tracked_example"
    by (simp add: after_statement_def)
  moreover from delete_store_restricted [OF s' id] free
  have "delete_store 1 ?d = Inr (?d\<lparr>stores := filter (\<lambda>s. stores_store_id s \<noteq> 1) (stores ?d)\<rparr>)"
    by (simp only: simp_thms if_False)
  ultimately show ?thesis by (simp add: rest after_statement_def)
qed

section \<open>History rows and the products they reference\<close>

lemma history_step:
  "price_history (apply_op d op) = price_history d \<or>
   (\<exists>pid price stock at. op = AppendHistory pid price stock at \<and>
      (\<exists>p \<in> set (products d). products_product_id p = pid) \<and>
      price_history (apply_op d op) = price_history d @
        [\<lparr>price_history_history_id = next_history_id d, price_history_product_id = pid,
          price_history_price_usd = price, price_history_stock_status = stock,
          price_history_scraped_at = at\<rparr>]) \<or>
   (\<exists>pid. op = DeleteProduct pid \<and>
      price_history (apply_op d op) = filter (\<lambda>h. price_history_product_id h \<noteq> pid) (price_history d))"
proof (cases op)
  case (UpsertStore n c s)
  then show ?thesis
    by (simp add: apply_op_def after_statement_def exec_op_def upsert_store_def insert_store_def split: option.split)
next
  case (UpsertGpu b m mf f)
  then show ?thesis
    by (simp add: apply_op_def after_statement_def exec_op_def upsert_gpu_def insert_gpu_def split: option.split)
next
  case (UpsertProduct sid gid sku url img)
  then show ?thesis
    by (simp add: apply_op_def after_statement_def exec_op_def upsert_product_def insert_product_def split: option.split)
next
  case (AppendHistory pid price stock at)
  then show ?thesis
    by (simp add: apply_op_def after_statement_def exec_op_def insert_price_history_def)
next
  case (DeleteProduct pid)
  then show ?thesis
    by (simp add: apply_op_def after_statement_def exec_op_def delete_product_unfold)
next
  case (DeleteStore sid)
  then show ?thesis
    by (simp add: apply_op_def after_statement_def exec_op_def delete_store_unfold)
next
  case (DeleteGpu gid)
  then show ?thesis
    by (simp add: apply_op_def after_statement_def exec_op_def delete_gpu_unfold)
qed
lemma product_ids_step:
  "products_product_id ` set (products (apply_op d op)) \<supseteq> products_product_id ` set (products d) \<or>
   (\<exists>pid. op = DeleteProduct pid \<and>
      products_product_id ` set (products (apply_op d op)) = products_product_id ` set (products d) - {pid})"
proof (cases op)
  case (UpsertStore n c s)
  then show ?thesis
    by (simp add: apply_op_def after_statement_def exec_op_def upsert_store_def insert_store_def split: option.split)
next
  case (UpsertGpu b m mf f)
  then show ?thesis
    by (simp add: apply_op_def after_statement_def exec_op_def upsert_gpu_def insert_gpu_def split: option.split)
next
  case (UpsertProduct sid gid sku url img)
  let ?f = "\<lambda>q. if products_microcenter_sku q = sku
          then q\<lparr>products_last_seen_image_url := img\<rparr> else q"
  have "products_product_id ` ?f ` set (products d) = (products_product_id \<circ> ?f) ` set (products d)"
    by (rule image_comp)
  also have "products_product_id \<circ> ?f = products_product_id"
    by (rule ext) simp
  finally have "products_product_id ` ?f ` set (products d) = products_product_id ` set (products d)" .
  note same_ids = this
  show ?thesis
  proof (cases "find (\<lambda>p. products_microcenter_sku p = sku) (products d)")
    case None
    with UpsertProduct have "products_product_id ` set (products d)
        \<subseteq> products_product_id ` set (products (apply_op d op))"
      by (auto simp: apply_op_def after_statement_def exec_op_def upsert_product_def insert_product_def)
    then show ?thesis ..
  next
    case (Some p)
    with UpsertProduct have "products (apply_op d op) = map ?f (products d)"
      by (simp add: apply_op_def after_statement_def exec_op_def upsert_product_def)
    with same_ids show ?thesis by simp
  qed
next
  case (AppendHistory pid price stock at)
  then show ?thesis
    by (simp add: apply_op_def after_statement_def exec_op_def insert_price_history_def)
next
  case (DeleteProduct pid)
  then show ?thesis
    by (auto simp: apply_op_def after_statement_def exec_op_def delete_product_unfold)
next
  case (DeleteStore sid)
  then show ?thesis
    by (simp add: apply_op_def after_statement_def exec_op_def delete_store_unfold)
next
  case (DeleteGpu gid)
  then show ?thesis
    by (simp add: apply_op_def after_statement_def exec_op_def delete_gpu_unfold)
qed

lemma no_orphans_alt:
  "no_orphans d \<longleftrightarrow> price_history_product_id ` set (price_history d) \<subseteq> products_product_id ` set (products d)"
proof
  assume "no_orphans d"
  then show "price_history_product_id ` set (price_history d) \<subseteq> products_product_id ` set (products d)"
    unfolding no_orphans_def by force
next
  assume sub: "price_history_product_id ` set (price_history d) \<subseteq> products_product_id ` set (products d)"
  show "no_orphans d"
    unfolding no_orphans_def
  proof
    fix h
    assume "h \<in> set (price_history d)"
    with sub have "price_history_product_id h \<in> products_product_id ` set (products d)"
      by blast
    then obtain p where "p \<in> set (products d)" and "price_history_product_id h = products_product_id p"
      by blast
    then show "\<exists>p \<in> set (products d). products_product_id p = price_history_product_id h"
      by (intro bexI [of _ p]) simp_all
  qed
qed
lemma image_filter_neq: "f ` set (filter (\<lambda>x. f x \<noteq> a) xs) = f ` set xs - {a}"
  by auto

lemma delete_product_ids:
  assumes "pid \<in> products_product_id ` set (products d)"
  shows "price_history_product_id ` set (price_history (apply_op d (DeleteProduct pid)))
           = price_history_product_id ` set (price_history d) - {pid}"
    and "products_product_id ` set (products (apply_op d (DeleteProduct pid)))
           = products_product_id ` set (products d) - {pid}"
proof -
  from assms have ex: "\<exists>p \<in> set (products d). products_product_id p = pid" by force
  then have "apply_op d (DeleteProduct pid) =
      d\<lparr>price_history := filter (\<lambda>h. price_history_product_id h \<noteq> pid) (price_history d),
        products := filter (\<lambda>p. products_product_id p \<noteq> pid) (products d)\<rparr>"
    by (simp add: apply_op_def after_statement_def exec_op_def delete_product_unfold)
  then have ph: "price_history (apply_op d (DeleteProduct pid))
        = filter (\<lambda>h. price_history_product_id h \<noteq> pid) (price_history d)"
    and pr: "products (apply_op d (DeleteProduct pid))
        = filter (\<lambda>p. products_product_id p \<noteq> pid) (products d)"
    by simp_all
  show "price_history_product_id ` set (price_history (apply_op d (DeleteProduct pid)))
           = price_history_product_id ` set (price_history d) - {pid}"
    by (simp only: ph image_filter_neq)
  show "products_product_id ` set (products (apply_op d (DeleteProduct pid)))
           = products_product_id ` set (products d) - {pid}"
    by (simp only: pr image_filter_neq)
qed

lemma delete_product_absent:
  assumes "pid \<notin> products_product_id ` set (products d)"
  shows "apply_op d (DeleteProduct pid) = d"
proof -
  from assms have "\<not> (\<exists>p \<in> set (products d). products_product_id p = pid)" by force
  then show ?thesis by (simp add: apply_op_def after_statement_def exec_op_def delete_product_unfold)
qed

lemma product_ids_mono:
  assumes "\<forall>pid. op \<noteq> DeleteProduct pid"
  shows "products_product_id ` set (products d) \<subseteq> products_product_id ` set (products (apply_op d op))"
proof -
  from product_ids_step [of d op] show ?thesis
  proof
    assume "products_product_id ` set (products d) \<subseteq> products_product_id ` set (products (apply_op d op))"
    then show ?thesis .
  next
    assume "\<exists>pid. op = DeleteProduct pid \<and>
      products_product_id ` set (products (apply_op d op)) = products_product_id ` set (products d) - {pid}"
    then obtain pid where "op = DeleteProduct pid" by (elim exE conjE)
    with assms show ?thesis by simp
  qed
qed

lemma history_ids_other:
  assumes "\<forall>pid. op \<noteq> DeleteProduct pid"
  shows "price_history_product_id ` set (price_history (apply_op d op))
           \<subseteq> price_history_product_id ` set (price_history d) \<union> products_product_id ` set (products d)"
proof -
  from history_step [of d op] show ?thesis
  proof (elim disjE exE conjE)
    assume "price_history (apply_op d op) = price_history d"
    then show ?thesis by simp
  next
    fix pid price stock at
    assume ex: "\<exists>p \<in> set (products d). products_product_id p = pid"
      and app: "price_history (apply_op d op) = price_history d @
        [\<lparr>price_history_history_id = next_history_id d, price_history_product_id = pid,
          price_history_price_usd = price, price_history_stock_status = stock,
          price_history_scraped_at = at\<rparr>]"
    from ex have "pid \<in> products_product_id ` set (products d)" by force
    with app show ?thesis by simp
  next
    fix pid
    assume "op = DeleteProduct pid"
    with assms show ?thesis by simp
  qed
qed

lemma no_orphans_step:
  assumes "no_orphans d"
  shows "no_orphans (apply_op d op)"
proof -
  let ?d = "apply_op d op"
  let ?H = "price_history_product_id ` set (price_history d)"
  let ?P = "products_product_id ` set (products d)"
  let ?H' = "price_history_product_id ` set (price_history ?d)"
  let ?P' = "products_product_id ` set (products ?d)"
  from assms have sub: "?H \<subseteq> ?P" by (simp only: no_orphans_alt)
  have "?H' \<subseteq> ?P'"
  proof (cases "\<exists>pid. op = DeleteProduct pid")
    case True
    then obtain pid where del: "op = DeleteProduct pid" ..
    show ?thesis
    proof (cases "pid \<in> ?P")
      case True
      from delete_product_ids [OF True] del have "?H' = ?H - {pid}" and "?P' = ?P - {pid}"
        by simp_all
      with sub show ?thesis by (simp only: Diff_mono subset_refl)
    next
      case False
      from delete_product_absent [OF False] del have "?d = d" by simp
      with sub show ?thesis by simp
    qed
  next
    case False
    then have other: "\<forall>pid. op \<noteq> DeleteProduct pid" by simp
    have "?H' \<subseteq> ?H \<union> ?P" by (rule history_ids_other [OF other])
    also from sub have "?H \<union> ?P \<subseteq> ?P" by (simp only: Un_least subset_refl)
    also have "?P \<subseteq> ?P'" by (rule product_ids_mono [OF other])
    finally show ?thesis .
  qed
  then show ?thesis by (simp only: no_orphans_alt)
qed

lemma no_orphans_run: "no_orphans d \<Longrightarrow> no_orphans (run_ops ops d)"
  unfolding run_ops_def
  by (induction ops arbitrary: d) (simp_all add: no_orphans_step)

lemma no_orphans_empty: "no_orphans empty_database"
  by (simp add: no_orphans_def empty_database_def)

lemma tracked_example_reached:
  "run_ops [UpsertStore ''Tustin'' ''Tustin'' ''CA'',
            UpsertGpu (Some ''NVIDIA'') ''GeForce RTX 4090'' (Some ''ASUS'') ''ASUS NVIDIA GeForce RTX 4090 TUF'',
            UpsertProduct 1 1 ''649251'' None None,
            AppendHistory 1 159999 ''In Stock'' 100,
            AppendHistory 1 154999 ''Sold Out'' 200] empty_database = tracked_example"
  by (simp add: tracked_example_def run_ops_def apply_op_def after_statement_def exec_op_def
        upsert_store_def upsert_gpu_def upsert_product_def insert_store_def insert_gpu_def
        insert_product_def insert_price_history_def empty_database_def)

text \<open>
  Claim C5. Starting from the empty database, after any sequence of the system's writes
  every history row references a product that exists, and each write keeps it so.
  Deleting a product that exists succeeds and removes exactly the product and every
  history row of it. And a write does one of three things to the history: nothing, or it
  appends one row for an existing product, or it is the deletion of a product and removes
  that product's rows; no row is ever changed.
\<close>

theorem product_delete_cascades_history:
  "no_orphans (run_ops ops empty_database) \<and>
   (no_orphans d \<longrightarrow> no_orphans (apply_op d op)) \<and>
   (p \<in> set (products d) \<longrightarrow>
      delete_product (products_product_id p) d =
        Inr (d\<lparr>price_history := filter (\<lambda>h. price_history_product_id h \<noteq> products_product_id p) (price_history d),
               products := filter (\<lambda>q. products_product_id q \<noteq> products_product_id p) (products d)\<rparr>)) \<and>
   (price_history (apply_op d op) = price_history d \<or>
    (\<exists>pid price stock at. op = AppendHistory pid price stock at \<and>
       (\<exists>p \<in> set (products d). products_product_id p = pid) \<and>
       price_history (apply_op d op) = price_history d @
         [\<lparr>price_history_history_id = next_history_id d, price_history_product_id = pid,
           price_history_price_usd = price, price_history_stock_status = stock,
           price_history_scraped_at = at\<rparr>]) \<or>
    (\<exists>pid. op = DeleteProduct pid \<and>
       price_history (apply_op d op) = filter (\<lambda>h. price_history_product_id h \<noteq> pid) (price_history d)))"
proof (intro conjI impI)
  show "no_orphans (run_ops ops empty_database)"
    by (rule no_orphans_run [OF no_orphans_empty])
next
  assume "no_orphans d"
  then show "no_orphans (apply_op d op)" by (rule no_orphans_step)
next
  assume "p \<in> set (products d)"
  then have "\<exists>q \<in> set (products d). products_product_id q = products_product_id p" by blast
  then show "delete_product (products_product_id p) d =
        Inr (d\<lparr>price_history := filter (\<lambda>h. price_history_product_id h \<noteq> products_product_id p) (price_history d),
               products := filter (\<lambda>q. products_product_id q \<noteq> products_product_id p) (products d)\<rparr>)"
    by (simp add: delete_product_unfold)
next
  show "price_history (apply_op d op) = price_history d \<or>
    (\<exists>pid price stock at. op = AppendHistory pid price stock at \<and>
       (\<exists>p \<in> set (products d). products_product_id p = pid) \<and>
       price_history (apply_op d op) = price_history d @
         [\<lparr>price_history_history_id = next_history_id d, price_history_product_id = pid,
           price_history_price_usd = price, price_history_stock_status = stock,
           price_history_scraped_at = at\<rparr>]) \<or>
    (\<exists>pid. op = DeleteProduct pid \<and>
       price_history (apply_op d op) = filter (\<lambda>h. price_history_product_id h \<noteq> pid) (price_history d))"
    by (rule history_step)
qed


theorem product_delete_cascades_history_witness:
  "no_orphans tracked_example \<and>
   no_orphans (apply_op tracked_example (DeleteProduct 1)) \<and>
   price_history (apply_op tracked_example (DeleteProduct 1)) = [] \<and>
   products (apply_op tracked_example (DeleteProduct 1)) = []"
proof -
  let ?p = "\<lparr>products_product_id = 1, products_store_id = 1, products_gpu_id = 1,
                   products_microcenter_sku = ''649251'', products_product_url = None,
                   products_last_seen_image_url = None\<rparr>"
  let ?ops = "[UpsertStore ''Tustin'' ''Tustin'' ''CA'',
              UpsertGpu (Some ''NVIDIA'') ''GeForce RTX 4090'' (Some ''ASUS'') ''ASUS NVIDIA GeForce RTX 4090 TUF'',
              UpsertProduct 1 1 ''649251'' None None,
              AppendHistory 1 159999 ''In Stock'' 100,
              AppendHistory 1 154999 ''Sold Out'' 200]"
  have p: "?p \<in> set (products tracked_example)" by (simp add: tracked_example_def)
  from product_delete_cascades_history [of ?ops tracked_example "DeleteProduct 1" ?p]
  have "no_orphans (run_ops ?ops empty_database)" by (elim conjE)
  then have n: "no_orphans tracked_example" by (simp only: tracked_example_reached)
  from product_delete_cascades_history [of ?ops tracked_example "DeleteProduct 1" ?p] p n
  have "no_orphans (apply_op tracked_example (DeleteProduct 1))"
    and "delete_product 1 tracked_example =
        Inr (tracked_example\<lparr>price_history := filter (\<lambda>h. price_history_product_id h \<noteq> 1) (price_history tracked_example),
               products := filter (\<lambda>q. products_product_id q \<noteq> 1) (products tracked_example)\<rparr>)"
    by simp_all
  with n show ?thesis
    by (simp add: apply_op_def after_statement_def exec_op_def) (simp add: tracked_example_def)
qed

section \<open>Filtering the list\<close>

lemma str_includes_sublist: "str_includes s t \<longleftrightarrow> sublist t s"
  by (induction s) (auto simp: sublist_Cons_right)

lemma toUpperCase_Unknown: "toUpperCase ''Unknown'' = ''UNKNOWN''"
  by code_simp

lemma js_filter_total:
  assumes "\<forall>x \<in> set xs. p x = Inr (q x)"
  shows "js_filter p xs = Inr (filter q xs)"
  using assms by (induction xs) simp_all

lemma gpu_matches_view_row:
  assumes "view_row g"
  shows "gpu_matches (toLowerCase t) b st g = Inr (visible t b st g)"
proof -
  from assms obtain gpu where g: "g = Some gpu" and "is_string (model_name gpu)"
    and br: "is_string (brand gpu) \<or> brand gpu = JNull"
    by (cases g) (simp_all add: view_row_def)
  then obtain s where s: "model_name gpu = JStr s"
    by (cases "model_name gpu") simp_all
  from br show ?thesis
  proof
    assume "is_string (brand gpu)"
    then obtain x where "brand gpu = JStr x" by (cases "brand gpu") simp_all
    with g s show ?thesis
      by (auto simp: gpu_matches_def visible_def name_contains_def brand_selected_def
            brand_uppercases_to_def store_selected_def js_or_def str_includes_sublist toUpperCase_Unknown)
  next
    assume "brand gpu = JNull"
    with g s show ?thesis
      by (auto simp: gpu_matches_def visible_def name_contains_def brand_selected_def
            brand_uppercases_to_def store_selected_def js_or_def str_includes_sublist toUpperCase_Unknown)
  qed
qed

lemma gpu_matches_1_view_row:
  assumes "view_row g"
  shows "gpu_matches_1 (toLowerCase t) b g = Inr (visible t b ''all'' g)"
proof -
  from assms obtain gpu where g: "g = Some gpu" and "is_string (model_name gpu)"
    and br: "is_string (brand gpu) \<or> brand gpu = JNull"
    by (cases g) (simp_all add: view_row_def)
  then obtain s where s: "model_name gpu = JStr s"
    by (cases "model_name gpu") simp_all
  from br show ?thesis
  proof
    assume "is_string (brand gpu)"
    then obtain x where "brand gpu = JStr x" by (cases "brand gpu") simp_all
    with g s show ?thesis
      by (auto simp: gpu_matches_1_def visible_def name_contains_def brand_selected_def
            brand_uppercases_to_def store_selected_def js_or_def str_includes_sublist toUpperCase_Unknown)
  next
    assume "brand gpu = JNull"
    with g s show ?thesis
      by (auto simp: gpu_matches_1_def visible_def name_contains_def brand_selected_def
            brand_uppercases_to_def store_selected_def js_or_def str_includes_sublist toUpperCase_Unknown)
  qed
qed

lemma show_last_scraped_frame:
  "allGPUs (show_last_scraped c) = allGPUs c"
  "search_input (show_last_scraped c) = search_input c"
  "brand_filter (show_last_scraped c) = brand_filter c"
  "store_filter (show_last_scraped c) = store_filter c"
  "pollInterval (show_last_scraped c) = pollInterval c"
  "effects (show_last_scraped c) = effects c"
  "clock (show_last_scraped c) = clock c"
  "gpu_grid (show_last_scraped c) = gpu_grid c"
  by (simp_all add: show_last_scraped_def split: json_body.split list.split option.split)

lemma renderGPUs_frame:
  "allGPUs (renderGPUs g c) = allGPUs c"
  "search_input (renderGPUs g c) = search_input c"
  "brand_filter (renderGPUs g c) = brand_filter c"
  "store_filter (renderGPUs g c) = store_filter c"
  "pollInterval (renderGPUs g c) = pollInterval c"
  "effects (renderGPUs g c) = effects c"
  "clock (renderGPUs g c) = clock c"
  by (simp_all add: renderGPUs_def show_last_scraped_frame split: json_body.split)

lemma filterGPUs_view_rows:
  assumes "allGPUs c = BodyArray rows" and "\<forall>g \<in> set rows. view_row g"
  shows "filterGPUs c =
           Inr (renderGPUs (BodyArray (filter (visible (search_input c) (select_value (brand_filter c))
                                                 (select_value (store_filter c))) rows)) c)"
proof -
  from assms(2) have "js_filter (gpu_matches (toLowerCase (search_input c)) (select_value (brand_filter c))
                         (select_value (store_filter c))) rows
        = Inr (filter (visible (search_input c) (select_value (brand_filter c))
                         (select_value (store_filter c))) rows)"
    by (intro js_filter_total ballI gpu_matches_view_row) simp
  with assms(1) show ?thesis by (simp add: filterGPUs_def)
qed

lemma change_control_allGPUs: "allGPUs (change_control ev c) = allGPUs c"
  by (cases ev) (simp_all add: change_control_def)

text \<open>
  Claim C3. On a page whose list holds rows as the API delivers them, the listener puts
  on the grid exactly the rows of the whole list that pass the three controls: the search
  text occurs in the model name, letter case aside; the brand dropdown stands on "all" or
  on the row's brand in upper case; the store dropdown stands on "all" or on exactly the
  row's store name (the first script has no store dropdown). With NVIDIA selected these
  are the rows whose brand uppercases to NVIDIA, with "4090" typed those whose lower-cased
  model name contains "4090". Every change of a control filters the whole list again,
  and leaves the list as it is.
\<close>

theorem filterGPUs_shows_matching_rows:
  assumes "allGPUs c = BodyArray rows" and "\<forall>g \<in> set rows. view_row g"
  shows "filterGPUs c =
           Inr (renderGPUs (BodyArray (filter (visible (search_input c) (select_value (brand_filter c))
                                                 (select_value (store_filter c))) rows)) c) \<and>
         filterGPUs_1 c =
           Inr (renderGPUs_1 (BodyArray (filter (visible (search_input c) (select_value (brand_filter c))
                                                   ''all'') rows)) c) \<and>
         (\<forall>gpu. brand_selected ''NVIDIA'' gpu \<longleftrightarrow> brand_uppercases_to ''NVIDIA'' gpu) \<and>
         (\<forall>gpu. name_contains ''4090'' gpu \<longleftrightarrow> (\<exists>s. model_name gpu = JStr s \<and> sublist ''4090'' (toLowerCase s))) \<and>
         (\<forall>gpu st. st \<noteq> ''all'' \<longrightarrow> st \<noteq> ''Unknown'' \<longrightarrow>
            (store_selected st gpu \<longleftrightarrow> st \<noteq> [] \<and> store_name gpu = JStr st)) \<and>
         (\<forall>ev. allGPUs (on_filter_change ev c) = BodyArray rows \<and>
               on_filter_change ev c =
                 renderGPUs (BodyArray (filter (visible (search_input (change_control ev c))
                                                  (select_value (brand_filter (change_control ev c)))
                                                  (select_value (store_filter (change_control ev c)))) rows))
                   (change_control ev c))"
proof (intro conjI allI impI)
  show "filterGPUs c =
           Inr (renderGPUs (BodyArray (filter (visible (search_input c) (select_value (brand_filter c))
                                                 (select_value (store_filter c))) rows)) c)"
    by (rule filterGPUs_view_rows [OF assms])
next
  from assms(2) have "js_filter (gpu_matches_1 (toLowerCase (search_input c)) (select_value (brand_filter c))) rows
        = Inr (filter (visible (search_input c) (select_value (brand_filter c)) ''all'') rows)"
    by (intro js_filter_total ballI gpu_matches_1_view_row) simp
  with assms(1) show "filterGPUs_1 c =
           Inr (renderGPUs_1 (BodyArray (filter (visible (search_input c) (select_value (brand_filter c))
                                                   ''all'') rows)) c)"
    by (simp add: filterGPUs_1_def)
next
  fix gpu
  have "toUpperCase [] \<noteq> ''NVIDIA''" by (simp add: toUpperCase_def)
  then show "brand_selected ''NVIDIA'' gpu \<longleftrightarrow> brand_uppercases_to ''NVIDIA'' gpu"
    by (cases "brand gpu") (auto simp: brand_selected_def brand_uppercases_to_def)
next
  fix gpu
  have "toLowerCase ''4090'' = ''4090''" by code_simp
  then show "name_contains ''4090'' gpu \<longleftrightarrow> (\<exists>s. model_name gpu = JStr s \<and> sublist ''4090'' (toLowerCase s))"
    by (cases "model_name gpu") (simp_all add: name_contains_def)
next
  fix gpu :: gpu and st :: string
  assume "st \<noteq> ''all''" and "st \<noteq> ''Unknown''"
  then show "store_selected st gpu \<longleftrightarrow> st \<noteq> [] \<and> store_name gpu = JStr st"
    by (cases "store_name gpu") (auto simp: store_selected_def)
next
  fix ev
  let ?c1 = "change_control ev c"
  from assms(1) have all: "allGPUs ?c1 = BodyArray rows" by (simp add: change_control_allGPUs)
  from filterGPUs_view_rows [OF all assms(2)]
  show step: "on_filter_change ev c =
                 renderGPUs (BodyArray (filter (visible (search_input ?c1)
                                                  (select_value (brand_filter ?c1))
                                                  (select_value (store_filter ?c1))) rows)) ?c1"
    by (simp add: on_filter_change_def Let_def)
  from all show "allGPUs (on_filter_change ev c) = BodyArray rows"
    by (simp only: step renderGPUs_frame)
qed

lemma example_rows_view: "\<forall>g \<in> set example_rows. view_row g"
  by (simp add: example_rows_def example_row_def view_row_def)

lemma example_rows_visible:
  "filter (visible ''4090'' ''NVIDIA'' ''all'') example_rows =
     [Some (example_row 1 ''Nvidia'' ''GeForce RTX 4090'' ''Tustin''),
      Some (example_row 4 ''NVIDIA'' ''RTX 4090 Ti'' ''Denver'')]"
  by code_simp

theorem filterGPUs_shows_matching_rows_witness:
  "filterGPUs example_client =
     Inr (renderGPUs (BodyArray [Some (example_row 1 ''Nvidia'' ''GeForce RTX 4090'' ''Tustin''),
                                 Some (example_row 4 ''NVIDIA'' ''RTX 4090 Ti'' ''Denver'')])
            example_client)"
proof -
  have all: "allGPUs example_client = BodyArray example_rows"
    by (simp add: example_client_def)
  have controls: "search_input example_client = ''4090''"
    "select_value (brand_filter example_client) = ''NVIDIA''"
    "select_value (store_filter example_client) = ''all''"
    by (simp_all add: example_client_def select_value_def)
  from filterGPUs_shows_matching_rows [OF all example_rows_view]
  show ?thesis by (simp only: controls example_rows_visible)
qed

section \<open>Rendering the cards\<close>

lemma stock_class_js_or:
  "stock_class (js_or v (JStr ''Unknown'')) = Inr (stock_badge v)"
  by (cases v) (simp_all add: stock_class_def js_or_def stock_badge_def shown_def str_includes_sublist)

lemma image_src_eq:
  "image_src v =
     (if \<not> truthy v \<or> is_string v
      then Inr (if no_image v then JStr PLACEHOLDER_URL else v)
      else Inl TypeError)"
  by (cases v) (auto simp: image_src_def no_image_def str_includes_sublist)

lemma js_replace_quotes_js_or:
  "js_replace_quotes (js_or m (JStr ''Unknown Model'')) =
     (if \<not> truthy m \<or> is_string m then Inr (escape_quotes (shown m ''Unknown Model'')) else Inl TypeError)"
  by (cases m) (simp_all add: js_or_def shown_def)

lemma to_string_js_or: "to_string (js_or v (JStr p)) = shown v p"
  by (simp add: js_or_def shown_def)

lemma gpu_card_eq:
  "gpu_card (Some gpu) =
     (if renders gpu then
        Inr \<lparr>card_image = (if no_image (last_seen_image_url gpu) then PLACEHOLDER_URL
                           else to_string (last_seen_image_url gpu)),
             card_brand = shown (brand gpu) ''Unknown'',
             card_store = Some (shown (store_name gpu) ''Unknown Store''),
             card_model = shown (model_name gpu) ''Unknown Model'',
             card_price = CHR ''$'' # shown (price_usd gpu) ''0.00'',
             card_stock_class = stock_badge (stock_status gpu),
             card_stock = shown (stock_status gpu) ''Unknown'',
             card_history_id = to_string (product_id gpu),
             card_history_name = escape_quotes (shown (model_name gpu) ''Unknown Model''),
             card_href = shown (product_url gpu) ''#''\<rparr>
      else Inl TypeError)"
  by (simp add: gpu_card_def renders_def stock_class_js_or image_src_eq js_replace_quotes_js_or
        to_string_js_or Let_def)

lemma gpu_card_1_eq:
  "gpu_card_1 (Some gpu) =
     (if renders gpu then
        Inr \<lparr>card_image = (if no_image (last_seen_image_url gpu) then PLACEHOLDER_URL
                           else to_string (last_seen_image_url gpu)),
             card_brand = shown (brand gpu) ''Unknown'',
             card_store = None,
             card_model = shown (model_name gpu) ''Unknown Model'',
             card_price = CHR ''$'' # shown (price_usd gpu) ''0.00'',
             card_stock_class = stock_badge (stock_status gpu),
             card_stock = shown (stock_status gpu) ''Unknown'',
             card_history_id = to_string (product_id gpu),
             card_history_name = escape_quotes (shown (model_name gpu) ''Unknown Model''),
             card_href = shown (product_url gpu) ''#''\<rparr>
      else Inl TypeError)"
  by (simp add: gpu_card_1_def renders_def stock_class_js_or image_src_eq js_replace_quotes_js_or
        to_string_js_or Let_def)

lemma forEach_card_eq: "forEach_card mk rows = [el. Inr el \<leftarrow> map mk rows]"
  by (induction rows) (simp_all split: sum.split)

lemma forEach_card_append: "forEach_card mk (xs @ ys) = forEach_card mk xs @ forEach_card mk ys"
  by (simp add: forEach_card_eq)

lemma forEach_card_skips:
  assumes "mk bad = Inl e"
  shows "forEach_card mk (xs @ bad # ys) = forEach_card mk xs @ forEach_card mk ys"
  using assms by (simp add: forEach_card_append)

lemma forEach_card_keeps:
  assumes "g \<in> set rows" and "mk g = Inr el"
  shows "el \<in> set (forEach_card mk rows)"
  using assms by (induction rows) (auto split: sum.split)

lemma renderGPUs_grid:
  "gpu_grid (renderGPUs body c) =
     (case body of
        BodyArray rows \<Rightarrow> if rows = [] then EmptyState else Cards (forEach_card gpu_card rows)
      | _ \<Rightarrow> EmptyState)"
  by (simp add: renderGPUs_def split: json_body.split)

lemma renderGPUs_1_grid:
  "gpu_grid (renderGPUs_1 body c) =
     (case body of
        BodyArray rows \<Rightarrow> if rows = [] then EmptyState else Cards (forEach_card gpu_card_1 rows)
      | _ \<Rightarrow> EmptyState)"
  by (simp add: renderGPUs_1_def split: json_body.split)

text \<open>
  Claim C10. \<^verbatim>\<open>renderGPUs\<close> (either script) always ends with a grid: for \<^verbatim>\<open>null\<close>, for a
  body that is no array and for the empty array the grid is the empty-state message, with
  no cards; for any other array it holds, in order, the cards of exactly those rows whose
  card code does not throw. A row that throws is left out, the rows before and after it
  are rendered as they would be without it, and every row that does not throw has its
  card on the grid.
\<close>

theorem renderGPUs_isolates_row_failures:
  "gpu_grid (renderGPUs BodyNull c) = EmptyState \<and>
   gpu_grid (renderGPUs BodyObject c) = EmptyState \<and>
   gpu_grid (renderGPUs (BodyArray []) c) = EmptyState \<and>
   gpu_grid (renderGPUs_1 BodyNull c) = EmptyState \<and>
   gpu_grid (renderGPUs_1 BodyObject c) = EmptyState \<and>
   gpu_grid (renderGPUs_1 (BodyArray []) c) = EmptyState \<and>
   (rows \<noteq> [] \<longrightarrow>
      gpu_grid (renderGPUs (BodyArray rows) c) = Cards [el. Inr el \<leftarrow> map gpu_card rows] \<and>
      gpu_grid (renderGPUs_1 (BodyArray rows) c) = Cards [el. Inr el \<leftarrow> map gpu_card_1 rows]) \<and>
   (gpu_card bad = Inl e \<longrightarrow>
      gpu_grid (renderGPUs (BodyArray (xs @ bad # ys)) c) =
        Cards (forEach_card gpu_card xs @ forEach_card gpu_card ys)) \<and>
   (gpu_card_1 bad = Inl e \<longrightarrow>
      gpu_grid (renderGPUs_1 (BodyArray (xs @ bad # ys)) c) =
        Cards (forEach_card gpu_card_1 xs @ forEach_card gpu_card_1 ys)) \<and>
   (g \<in> set rows \<longrightarrow> gpu_card g = Inr el \<longrightarrow>
      (\<exists>cards. gpu_grid (renderGPUs (BodyArray rows) c) = Cards cards \<and> el \<in> set cards)) \<and>
   (g \<in> set rows \<longrightarrow> gpu_card_1 g = Inr el \<longrightarrow>
      (\<exists>cards. gpu_grid (renderGPUs_1 (BodyArray rows) c) = Cards cards \<and> el \<in> set cards))"
proof (intro conjI impI)
  show "gpu_grid (renderGPUs BodyNull c) = EmptyState"
    and "gpu_grid (renderGPUs BodyObject c) = EmptyState"
    and "gpu_grid (renderGPUs (BodyArray []) c) = EmptyState"
    by (simp_all add: renderGPUs_grid)
  show "gpu_grid (renderGPUs_1 BodyNull c) = EmptyState"
    and "gpu_grid (renderGPUs_1 BodyObject c) = EmptyState"
    and "gpu_grid (renderGPUs_1 (BodyArray []) c) = EmptyState"
    by (simp_all add: renderGPUs_1_grid)
next
  assume "rows \<noteq> []"
  then show "gpu_grid (renderGPUs (BodyArray rows) c) = Cards [el. Inr el \<leftarrow> map gpu_card rows]"
    and "gpu_grid (renderGPUs_1 (BodyArray rows) c) = Cards [el. Inr el \<leftarrow> map gpu_card_1 rows]"
    by (simp_all add: renderGPUs_grid renderGPUs_1_grid forEach_card_eq)
next
  assume "gpu_card bad = Inl e"
  then show "gpu_grid (renderGPUs (BodyArray (xs @ bad # ys)) c) =
        Cards (forEach_card gpu_card xs @ forEach_card gpu_card ys)"
    by (simp add: renderGPUs_grid forEach_card_skips)
next
  assume "gpu_card_1 bad = Inl e"
  then show "gpu_grid (renderGPUs_1 (BodyArray (xs @ bad # ys)) c) =
        Cards (forEach_card gpu_card_1 xs @ forEach_card gpu_card_1 ys)"
    by (simp add: renderGPUs_1_grid forEach_card_skips)
next
  assume g: "g \<in> set rows" and el: "gpu_card g = Inr el"
  from g have "rows \<noteq> []" by auto
  then have "gpu_grid (renderGPUs (BodyArray rows) c) = Cards (forEach_card gpu_card rows)"
    by (simp add: renderGPUs_grid)
  moreover from g el have "el \<in> set (forEach_card gpu_card rows)"
    by (rule forEach_card_keeps)
  ultimately show "\<exists>cards. gpu_grid (renderGPUs (BodyArray rows) c) = Cards cards \<and> el \<in> set cards"
    by blast
next
  assume g: "g \<in> set rows" and el: "gpu_card_1 g = Inr el"
  from g have "rows \<noteq> []" by auto
  then have "gpu_grid (renderGPUs_1 (BodyArray rows) c) = Cards (forEach_card gpu_card_1 rows)"
    by (simp add: renderGPUs_1_grid)
  moreover from g el have "el \<in> set (forEach_card gpu_card_1 rows)"
    by (rule forEach_card_keeps)
  ultimately show "\<exists>cards. gpu_grid (renderGPUs_1 (BodyArray rows) c) = Cards cards \<and> el \<in> set cards"
    by blast
qed

lemma example_card_first:
  "gpu_card (Some (example_row 1 ''Nvidia'' ''GeForce RTX 4090'' ''Tustin'')) =
     Inr \<lparr>card_image = ''https://placehold.co/200x200?text=No+Image'',
          card_brand = ''Nvidia'', card_store = Some ''Tustin'',
          card_model = ''GeForce RTX 4090'', card_price = ''$1599.99'',
          card_stock_class = ''stock-in'', card_stock = ''In Stock'',
          card_history_id = ''1'', card_history_name = ''GeForce RTX 4090'',
          card_href = ''#''\<rparr>"
  by code_simp

lemma example_card_last:
  "gpu_card (Some (example_row 4 ''NVIDIA'' ''RTX 4090 Ti'' ''Denver'')) =
     Inr \<lparr>card_image = ''https://placehold.co/200x200?text=No+Image'',
          card_brand = ''NVIDIA'', card_store = Some ''Denver'',
          card_model = ''RTX 4090 Ti'', card_price = ''$1599.99'',
          card_stock_class = ''stock-in'', card_stock = ''In Stock'',
          card_history_id = ''4'', card_history_name = ''RTX 4090 Ti'',
          card_href = ''#''\<rparr>"
  by code_simp

lemma broken_row_throws: "gpu_card (Some broken_row) = Inl TypeError"
  by code_simp

theorem renderGPUs_isolates_row_failures_witness:
  "gpu_card (Some broken_row) = Inl TypeError \<and>
   gpu_grid (renderGPUs (BodyArray [Some (example_row 1 ''Nvidia'' ''GeForce RTX 4090'' ''Tustin''),
                                    Some broken_row,
                                    Some (example_row 4 ''NVIDIA'' ''RTX 4090 Ti'' ''Denver'')])
               example_client) =
     Cards [\<lparr>card_image = ''https://placehold.co/200x200?text=No+Image'',
             card_brand = ''Nvidia'', card_store = Some ''Tustin'',
             card_model = ''GeForce RTX 4090'', card_price = ''$1599.99'',
             card_stock_class = ''stock-in'', card_stock = ''In Stock'',
             card_history_id = ''1'', card_history_name = ''GeForce RTX 4090'',
             card_href = ''#''\<rparr>,
            \<lparr>card_image = ''https://placehold.co/200x200?text=No+Image'',
             card_brand = ''NVIDIA'', card_store = Some ''Denver'',
             card_model = ''RTX 4090 Ti'', card_price = ''$1599.99'',
             card_stock_class = ''stock-in'', card_stock = ''In Stock'',
             card_history_id = ''4'', card_history_name = ''RTX 4090 Ti'',
             card_href = ''#''\<rparr>]"
proof -
  let ?first = "Some (example_row 1 ''Nvidia'' ''GeForce RTX 4090'' ''Tustin'')"
  let ?last = "Some (example_row 4 ''NVIDIA'' ''RTX 4090 Ti'' ''Denver'')"
  from renderGPUs_isolates_row_failures
         [of example_client "[?first, Some broken_row, ?last]" "Some broken_row" TypeError "[?first]" "[?last]"
            "Some broken_row" undefined]
  have "gpu_card (Some broken_row) = Inl TypeError \<longrightarrow>
        gpu_grid (renderGPUs (BodyArray ([?first] @ Some broken_row # [?last])) example_client) =
        Cards (forEach_card gpu_card [?first] @ forEach_card gpu_card [?last])"
    by fast
  with broken_row_throws
  have "gpu_grid (renderGPUs (BodyArray ([?first] @ Some broken_row # [?last])) example_client) =
        Cards (forEach_card gpu_card [?first] @ forEach_card gpu_card [?last])"
    by (rule rev_mp)
  then show ?thesis
    by (simp add: broken_row_throws example_card_first example_card_last)
qed

text \<open>
  Claim C6, as the code has it. A card is a function of its row alone, and the grid of
  the page state it is rendered on. A row renders when its image URL and its model name
  are strings wherever they are present. Its card shows each field, and for a missing one
  a placeholder: "Unknown" for the brand and the stock status, "Unknown Model" for the
  model name, "Unknown Store" for the store name (second script), "0.00" for the price
  and "#" for the product link. The image is the placeholder image exactly when the row
  has no image of its own: the URL is absent or empty, is "N/A", or contains
  "noimageproduct.gif".
\<close>

theorem gpu_card_placeholders:
  "gpu_card (Some gpu) =
     (if renders gpu then
        Inr \<lparr>card_image = (if no_image (last_seen_image_url gpu) then PLACEHOLDER_URL
                           else to_string (last_seen_image_url gpu)),
             card_brand = shown (brand gpu) ''Unknown'',
             card_store = Some (shown (store_name gpu) ''Unknown Store''),
             card_model = shown (model_name gpu) ''Unknown Model'',
             card_price = CHR ''$'' # shown (price_usd gpu) ''0.00'',
             card_stock_class = stock_badge (stock_status gpu),
             card_stock = shown (stock_status gpu) ''Unknown'',
             card_history_id = to_string (product_id gpu),
             card_history_name = escape_quotes (shown (model_name gpu) ''Unknown Model''),
             card_href = shown (product_url gpu) ''#''\<rparr>
      else Inl TypeError) \<and>
   gpu_card_1 (Some gpu) = map_sum id (\<lambda>el. el\<lparr>card_store := None\<rparr>) (gpu_card (Some gpu)) \<and>
   gpu_grid (renderGPUs body c) = gpu_grid (renderGPUs body c') \<and>
   gpu_grid (renderGPUs_1 body c) = gpu_grid (renderGPUs_1 body c')"
proof (intro conjI)
  show "gpu_card (Some gpu) =
     (if renders gpu then
        Inr \<lparr>card_image = (if no_image (last_seen_image_url gpu) then PLACEHOLDER_URL
                           else to_string (last_seen_image_url gpu)),
             card_brand = shown (brand gpu) ''Unknown'',
             card_store = Some (shown (store_name gpu) ''Unknown Store''),
             card_model = shown (model_name gpu) ''Unknown Model'',
             card_price = CHR ''$'' # shown (price_usd gpu) ''0.00'',
             card_stock_class = stock_badge (stock_status gpu),
             card_stock = shown (stock_status gpu) ''Unknown'',
             card_history_id = to_string (product_id gpu),
             card_history_name = escape_quotes (shown (model_name gpu) ''Unknown Model''),
             card_href = shown (product_url gpu) ''#''\<rparr>
      else Inl TypeError)"
    by (rule gpu_card_eq)
  show "gpu_card_1 (Some gpu) = map_sum id (\<lambda>el. el\<lparr>card_store := None\<rparr>) (gpu_card (Some gpu))"
    by (simp add: gpu_card_eq gpu_card_1_eq)
  show "gpu_grid (renderGPUs body c) = gpu_grid (renderGPUs body c')"
    by (simp only: renderGPUs_grid)
  show "gpu_grid (renderGPUs_1 body c) = gpu_grid (renderGPUs_1 body c')"
    by (simp only: renderGPUs_1_grid)
qed

theorem gpu_card_placeholders_witness:
  "renders ((example_row 3 ''NVIDIA'' ''GeForce RTX 4080'' ''Denver'')\<lparr>stock_status := JNull, last_seen_image_url := JStr ''https://img.example/noimageproduct.gif''\<rparr>) \<and>
   gpu_card (Some ((example_row 3 ''NVIDIA'' ''GeForce RTX 4080'' ''Denver'')\<lparr>stock_status := JNull, last_seen_image_url := JStr ''https://img.example/noimageproduct.gif''\<rparr>)) =
     Inr \<lparr>card_image = ''https://placehold.co/200x200?text=No+Image'',
          card_brand = ''NVIDIA'', card_store = Some ''Denver'',
          card_model = ''GeForce RTX 4080'', card_price = ''$1599.99'',
          card_stock_class = ''stock-out'', card_stock = ''Unknown'',
          card_history_id = ''3'', card_history_name = ''GeForce RTX 4080'',
          card_href = ''#''\<rparr>"
proof -
  let ?row = "(example_row 3 ''NVIDIA'' ''GeForce RTX 4080'' ''Denver'')\<lparr>stock_status := JNull, last_seen_image_url := JStr ''https://img.example/noimageproduct.gif''\<rparr>"
  have r: "renders ?row" by code_simp
  have fields: "no_image (last_seen_image_url ?row)"
    "shown (brand ?row) ''Unknown'' = ''NVIDIA''"
    "shown (store_name ?row) ''Unknown Store'' = ''Denver''"
    "shown (model_name ?row) ''Unknown Model'' = ''GeForce RTX 4080''"
    "shown (price_usd ?row) ''0.00'' = ''1599.99''"
    "stock_badge (stock_status ?row) = ''stock-out''"
    "shown (stock_status ?row) ''Unknown'' = ''Unknown''"
    "to_string (product_id ?row) = ''3''"
    "escape_quotes ''GeForce RTX 4080'' = ''GeForce RTX 4080''"
    "shown (product_url ?row) ''#'' = ''#''"
    "PLACEHOLDER_URL = ''https://placehold.co/200x200?text=No+Image''"
    by code_simp+
  from gpu_card_placeholders [of ?row] r show ?thesis
    by (simp only: fields if_True simp_thms)
qed

text \<open>
  A row with every field missing gets a card whose price reads "$0.00" and whose model
  name reads "Unknown Model": neither is the placeholder "Unknown".
\<close>

theorem missing_price_renders_zero:
  "price_usd blank_row = JNull \<and>
   gpu_card (Some blank_row) =
     Inr \<lparr>card_image = ''https://placehold.co/200x200?text=No+Image'',
          card_brand = ''Unknown'', card_store = Some ''Unknown Store'',
          card_model = ''Unknown Model'', card_price = ''$0.00'',
          card_stock_class = ''stock-out'', card_stock = ''Unknown'',
          card_history_id = ''null'', card_history_name = ''Unknown Model'',
          card_href = ''#''\<rparr> \<and>
   \<not> str_includes ''$0.00'' ''Unknown''"
  by code_simp

section \<open>Fetching the list and refilling the dropdowns\<close>

lemma emit_frame:
  "gpu_grid (emit e c) = gpu_grid c"
  "brand_filter (emit e c) = brand_filter c"
  "store_filter (emit e c) = store_filter c"
  "pollInterval (emit e c) = pollInterval c"
  "clock (emit e c) = clock c"
  "allGPUs (emit e c) = allGPUs c"
  "effects (emit e c) = effects c @ [(clock c, e)]"
  by (simp_all add: emit_def)



lemma select_value_reset: "select_value (set_options (v # opts) s) = v"
  by (simp add: select_value_def set_options_def)







lemma fetchGPUs_failed:
  "fetchGPUs p FetchFailed c =
     (if p then emit (Fetch API_URL) c else (emit (Fetch API_URL) c)\<lparr>gpu_grid := ConnectionError\<rparr>)"
  by (simp add: fetchGPUs_def Let_def)




text \<open>
  Claim C8, as the code has it. A fetch of the list that fails shows the "Connection
  Error" panel in the grid when it is not a polling refresh: always in the first script,
  and in the second when \<^verbatim>\<open>isPolling\<close> is false. A polling refresh that fails makes its
  request and changes nothing on the page: the grid stays as it is.
\<close>

theorem fetchGPUs_failure_panel:
  "gpu_grid (fetchGPUs_1 FetchFailed c) = ConnectionError \<and>
   gpu_grid (fetchGPUs False FetchFailed c) = ConnectionError \<and>
   fetchGPUs True FetchFailed c = emit (Fetch API_URL) c \<and>
   gpu_grid (fetchGPUs True FetchFailed c) = gpu_grid c"
  by (simp add: fetchGPUs_failed fetchGPUs_1_def Let_def emit_frame)

theorem fetchGPUs_failure_panel_witness:
  "gpu_grid (fetchGPUs False FetchFailed example_client) = ConnectionError \<and>
   effects (fetchGPUs True FetchFailed example_client) = [(0, Fetch ''/api/gpus'')]"
  using fetchGPUs_failure_panel [of example_client]
  by (simp add: emit_def example_client_def API_URL_def)

text \<open>A polling refresh that cannot reach the API leaves the grid of cards in place.\<close>

theorem polling_fetch_failure_is_silent:
  "gpu_grid (fetchGPUs True FetchFailed example_client) = Cards [] \<and>
   gpu_grid (fetchGPUs True FetchFailed example_client) \<noteq> ConnectionError"
  by (simp add: fetchGPUs_failed emit_frame) (simp add: example_client_def)

section \<open>Triggering a scrape\<close>

lemma startPolling_frame:
  "pollInterval (startPolling c)"
  "scrape_btn_disabled (startPolling c) = scrape_btn_disabled c"
  "scrape_status_text (startPolling c) = scrape_status_text c"
  "scrape_status_color (startPolling c) = scrape_status_color c"
  "clock (startPolling c) = clock c"
  "effects (startPolling c) = (if pollInterval c then effects c else effects c @ [(clock c, SetInterval POLL_INTERVAL)])"
  by (simp_all add: startPolling_def emit_def)

lemma startPolling_color:
  "startPolling (c\<lparr>scrape_status_color := x\<rparr>) = (startPolling c)\<lparr>scrape_status_color := x\<rparr>"
  by (simp add: startPolling_def emit_def)

text \<open>
  Claim C7. With a store chosen, a 409 answer to the trigger request is handled as a 200
  answer with the same body is: the page ends in the same state but for the colour of the
  status line (orange, not green). The status line shows the returned message (or the
  returned error text when there is no message), polling is on, started now if it was not
  running, and the button stays disabled. Any other status outside 200..299 takes the
  error path: the button is enabled again and polling is left as it was.
\<close>

theorem triggerScrape_409_like_200:
  assumes "select_value (scrape_store_select c) \<noteq> []"
  shows "triggerScrape (ScrapeBody 409 m e) c =
           (triggerScrape (ScrapeBody 200 m e) c)\<lparr>scrape_status_color := ''orange''\<rparr> \<and>
         scrape_status_text (triggerScrape (ScrapeBody 409 m e) c) = text_content (js_or m e) \<and>
         pollInterval (triggerScrape (ScrapeBody 409 m e) c) \<and>
         scrape_btn_disabled (triggerScrape (ScrapeBody 409 m e) c) \<and>
         (\<not> pollInterval c \<longrightarrow>
            (clock c, SetInterval POLL_INTERVAL) \<in> set (effects (triggerScrape (ScrapeBody 409 m e) c))) \<and>
         (\<not> (200 \<le> st \<and> st \<le> 299) \<and> st \<noteq> 409 \<longrightarrow>
            \<not> scrape_btn_disabled (triggerScrape (ScrapeBody st m e) c) \<and>
            pollInterval (triggerScrape (ScrapeBody st m e) c) = pollInterval c \<and>
            scrape_status_text (triggerScrape (ScrapeBody st m e) c) = ''Error: '' @ to_string e)"
proof (intro conjI impI)
  let ?c1 = "emit (Post SCRAPE_URL (select_value (scrape_store_select c)))
               (c\<lparr>scrape_btn_disabled := True, scrape_btn_text := ''Starting...'',
                  scrape_status_text := ''Initializing...'', scrape_status_color := ''blue''\<rparr>)"
  let ?shown = "?c1\<lparr>scrape_status_text := text_content (js_or m e)\<rparr>"
  from assms have conflict: "triggerScrape (ScrapeBody 409 m e) c =
      startPolling (?shown\<lparr>scrape_status_color := ''orange''\<rparr>)"
    by (simp add: triggerScrape_def Let_def)
  from assms have ok: "triggerScrape (ScrapeBody 200 m e) c =
      startPolling (?shown\<lparr>scrape_status_color := ''green''\<rparr>)"
    by (simp add: triggerScrape_def Let_def)
  show "triggerScrape (ScrapeBody 409 m e) c =
           (triggerScrape (ScrapeBody 200 m e) c)\<lparr>scrape_status_color := ''orange''\<rparr>"
    by (simp add: conflict ok startPolling_color)
  show "scrape_status_text (triggerScrape (ScrapeBody 409 m e) c) = text_content (js_or m e)"
    by (simp add: conflict startPolling_frame)
  show "pollInterval (triggerScrape (ScrapeBody 409 m e) c)"
    by (simp add: conflict startPolling_frame)
  show "scrape_btn_disabled (triggerScrape (ScrapeBody 409 m e) c)"
    by (simp add: conflict startPolling_frame emit_def)
next
  assume "\<not> pollInterval c"
  with assms show "(clock c, SetInterval POLL_INTERVAL) \<in> set (effects (triggerScrape (ScrapeBody 409 m e) c))"
    by (simp add: triggerScrape_def Let_def startPolling_def emit_def)
next
  assume other: "\<not> (200 \<le> st \<and> st \<le> 299) \<and> st \<noteq> 409"
  with assms show "\<not> scrape_btn_disabled (triggerScrape (ScrapeBody st m e) c)"
    and "pollInterval (triggerScrape (ScrapeBody st m e) c) = pollInterval c"
    and "scrape_status_text (triggerScrape (ScrapeBody st m e) c) = ''Error: '' @ to_string e"
    by (auto simp: triggerScrape_def Let_def emit_def)
qed

theorem triggerScrape_409_like_200_witness:
  "select_value (scrape_store_select example_client) = ''1'' \<and>
   triggerScrape (ScrapeBody 409 JUndefined (JStr ''Scrape already in progress'')) example_client =
     example_client
       \<lparr>scrape_btn_disabled := True,
        scrape_btn_text := ''Starting...'',
        scrape_status_text := ''Scrape already in progress'',
        scrape_status_color := ''orange'',
        pollInterval := True,
        effects := [(0, Post ''/api/scrape'' ''1''), (0, SetInterval 5000)]\<rparr>"
proof -
  have chosen: "select_value (scrape_store_select example_client) = ''1''"
    by (simp add: example_client_def select_value_def)
  then have nonempty: "select_value (scrape_store_select example_client) \<noteq> []" by simp
  have ok: "triggerScrape (ScrapeBody 200 JUndefined (JStr ''Scrape already in progress'')) example_client =
     example_client
       \<lparr>scrape_btn_disabled := True,
        scrape_btn_text := ''Starting...'',
        scrape_status_text := ''Scrape already in progress'',
        scrape_status_color := ''green'',
        pollInterval := True,
        effects := [(0, Post ''/api/scrape'' ''1''), (0, SetInterval 5000)]\<rparr>"
    by (simp add: triggerScrape_def Let_def chosen startPolling_def emit_def js_or_def
          SCRAPE_URL_def POLL_INTERVAL_def)
       (simp add: example_client_def)
  from triggerScrape_409_like_200 [OF nonempty, of JUndefined "JStr ''Scrape already in progress''"]
  have "triggerScrape (ScrapeBody 409 JUndefined (JStr ''Scrape already in progress'')) example_client =
        (triggerScrape (ScrapeBody 200 JUndefined (JStr ''Scrape already in progress'')) example_client)
          \<lparr>scrape_status_color := ''orange''\<rparr>"
    by fast
  with chosen show ?thesis by (simp add: ok)
qed

section \<open>Polling the status\<close>










end
